theory Spec2Isabelle
  imports Complex_Main "HOL-Library.Word"
begin

section \<open>Light-cone distribution amplitudes of the B meson (b-lcdas.cc)\<close>

text \<open>
  The C++ type \<open>double\<close> is modelled by \<^typ>\<open>real\<close>: \<open>std::exp\<close> is \<^const>\<open>exp\<close>,
  \<open>std::log\<close> is \<^const>\<open>ln\<close>, \<open>pow(x, k)\<close> with a literal integer \<open>k\<close> is \<open>x ^ k\<close>.
  Rounding is not modelled. The GSL special functions \<open>gsl_sf_expint_Ei\<close> and
  \<open>gsl_sf_gamma_inc\<close> are external to the repository and are passed as parameters.
  A \<open>UsedParameter\<close> is modelled by the value it evaluates to.
\<close>

record B_Implementation =
  opt_q :: string
  lambda_B_inv :: real
  lambda_E2 :: real
  lambda_H2 :: real
  opt_gminus :: string
  switch_gminus :: real

text \<open>The member \<open>const float debug_level_B = 1.0;\<close> with its comment \<open><= 1.0: only phi_+\<close>.\<close>

definition debug_level_B :: real where
  "debug_level_B = 1"

text \<open>The Euler-Mascheroni constant as the source spells it.\<close>

definition gamma_E :: real where
  "gamma_E = 0.57721566490153286"

definition lambda_B :: "B_Implementation \<Rightarrow> real" where
  "lambda_B imp = 1 / lambda_B_inv imp"

subsection \<open>Leading twist two-particle LCDAs\<close>

definition phi_plus :: "B_Implementation \<Rightarrow> real \<Rightarrow> real" where
  "phi_plus imp omega =
     (let omega_0 = lambda_B imp
      in omega / (omega_0 * omega_0) * exp (- omega / omega_0))"

definition phi_minus :: "B_Implementation \<Rightarrow> real \<Rightarrow> real" where
  "phi_minus imp omega =
     (if debug_level_B \<le> 1 then 0
      else
        let omega_0 = lambda_B imp;
            limitWW = 1 / omega_0 * exp (- omega / omega_0);
            nonWW = - (lambda_E2 imp - lambda_H2 imp) / (18 * omega_0 ^ 5) *
              (2 * omega_0 * omega_0 - 4 * omega_0 * omega + omega * omega) *
              exp (- omega / omega_0)
        in limitWW + nonWW)"

definition phi_bar :: "B_Implementation \<Rightarrow> real \<Rightarrow> real" where
  "phi_bar imp omega =
     (if debug_level_B \<le> 1 then 0
      else
        let omega_0 = lambda_B imp;
            limitWW = - omega / omega_0 * exp (- omega / omega_0);
            nonWW = (lambda_E2 imp - lambda_H2 imp) / (18 * omega_0 ^ 4) *
              (2 * omega_0 - omega) * omega * exp (- omega / omega_0)
        in limitWW + nonWW)"

definition phi_bar_d1 :: "B_Implementation \<Rightarrow> real \<Rightarrow> real" where
  "phi_bar_d1 imp omega =
     (if debug_level_B \<le> 1 then 0
      else phi_plus imp omega - phi_minus imp omega)"

subsection \<open>Next-to-leading twist two-particle LCDAs\<close>

definition g_minusWW :: "B_Implementation \<Rightarrow> real \<Rightarrow> real" where
  "g_minusWW imp omega =
     (if debug_level_B \<le> 1 then 0
      else if omega < 1 / 100000 then 0
      else
        let omega_0 = lambda_B imp;
            ex = exp (- omega / omega_0)
        in switch_gminus imp * (3 / 4) * omega * ex)"

definition g_minusWW_d1 :: "B_Implementation \<Rightarrow> real \<Rightarrow> real" where
  "g_minusWW_d1 imp omega =
     (if debug_level_B \<le> 1 then 0
      else
        let omega_0 = lambda_B imp;
            ex = exp (- omega / omega_0)
        in switch_gminus imp * (- 1) * (3 / (4 * omega_0)) * (omega - omega_0) * ex)"

definition g_minusWW_d2 :: "B_Implementation \<Rightarrow> real \<Rightarrow> real" where
  "g_minusWW_d2 imp omega =
     (if debug_level_B \<le> 1 then 0
      else
        let omega_0 = lambda_B imp;
            ex = exp (- omega / omega_0)
        in switch_gminus imp * (3 / (4 * omega_0 * omega_0)) * (omega - 2 * omega_0) * ex)"

definition g_plus :: "(real \<Rightarrow> real) \<Rightarrow> B_Implementation \<Rightarrow> real \<Rightarrow> real" where
  "g_plus gsl_sf_expint_Ei imp omega =
     (if debug_level_B \<le> 1 then 0
      else if omega < 1 / 100000 then 0
      else
        let omega_0 = lambda_B imp;
            Ei = gsl_sf_expint_Ei (- omega / omega_0);
            ex = exp (- omega / omega_0);
            termA = - lambda_E2 imp / (6 * omega_0 ^ 2) *
              ((omega - 2 * omega_0) * Ei
               + (omega + 2 * omega_0) * ex * (ln (omega / omega_0) + gamma_E)
               - 2 * omega * ex);
            termB = ex / (2 * omega_0) * omega ^ 2 *
              (1 - (lambda_E2 imp - lambda_H2 imp) / (36 * omega_0 ^ 2))
        in termA + termB)"

definition g_plus_d1 :: "(real \<Rightarrow> real) \<Rightarrow> B_Implementation \<Rightarrow> real \<Rightarrow> real" where
  "g_plus_d1 gsl_sf_expint_Ei imp omega =
     (if debug_level_B \<le> 1 then 0
      else if omega < 1 / 100000 then 0
      else
        let omega_0 = lambda_B imp;
            Ei = gsl_sf_expint_Ei (- omega / omega_0);
            ex = exp (- omega / omega_0);
            termA = lambda_E2 imp / (6 * omega_0 ^ 3) *
              (- omega_0 * Ei
               + (omega + omega_0) * ex * (ln (omega / omega_0) + gamma_E)
               - 2 * omega * ex);
            termB = ex / (2 * omega_0 ^ 2) * (2 * omega_0 - omega) * omega *
              (1 - (lambda_E2 imp - lambda_H2 imp) / (36 * omega_0 ^ 2))
        in termA + termB)"

definition g_plus_d2 :: "B_Implementation \<Rightarrow> real \<Rightarrow> real" where
  "g_plus_d2 imp omega =
     (if debug_level_B \<le> 1 then 0
      else
        let omega_0 = lambda_B imp;
            ex = exp (- omega / omega_0);
            termA = lambda_E2 imp / (6 * omega_0 ^ 4) * ex *
              (- omega_0 - omega * (ln (omega / omega_0) + gamma_E - 2));
            termB = ex / (2 * omega_0 ^ 3) *
              (2 * omega_0 ^ 2 - 4 * omega_0 * omega + omega ^ 2) *
              (1 - (lambda_E2 imp - lambda_H2 imp) / (36 * omega_0 ^ 2))
        in termA + termB)"

definition g_bar :: "(real \<Rightarrow> real) \<Rightarrow> B_Implementation \<Rightarrow> real \<Rightarrow> real" where
  "g_bar gsl_sf_expint_Ei imp omega =
     (if debug_level_B \<le> 1 then 0
      else if omega < 1 / 100000 then 0
      else
        let omega_0 = lambda_B imp;
            Ei = gsl_sf_expint_Ei (- omega / omega_0);
            ex = exp (- omega / omega_0);
            exp_plus = exp (omega / omega_0);
            termA = - lambda_E2 imp / (12 * omega_0 ^ 2) *
              ((omega ^ 2 - 4 * omega_0 * omega + 6 * omega_0 ^ 2) * Ei
               - omega_0 * ex * (ln (omega / omega_0) + gamma_E) * 2 * (3 * omega_0 + omega)
               - omega_0 * ex * (omega_0 - 5 * omega));
            termB = - ex / 2 * (2 * omega_0 ^ 2 + 2 * omega_0 * omega + omega ^ 2) *
              (1 - (lambda_E2 imp - lambda_H2 imp) / (36 * omega_0 ^ 2));
            int_glus = (termA - lambda_E2 imp / 12) +
              (termB + omega_0 ^ 2 - (lambda_E2 imp - lambda_H2 imp) / 36);
            int_gminusWW = (3 / 4) * ex * omega_0 * (exp_plus * omega_0 - omega - omega_0)
        in int_glus - switch_gminus imp * int_gminusWW)"

definition g_bar_d1 :: "(real \<Rightarrow> real) \<Rightarrow> B_Implementation \<Rightarrow> real \<Rightarrow> real" where
  "g_bar_d1 gsl_sf_expint_Ei imp omega =
     (if debug_level_B \<le> 1 then 0
      else g_plus gsl_sf_expint_Ei imp omega - g_minusWW imp omega)"

definition g_bar_d2 :: "(real \<Rightarrow> real) \<Rightarrow> B_Implementation \<Rightarrow> real \<Rightarrow> real" where
  "g_bar_d2 gsl_sf_expint_Ei imp omega =
     (if debug_level_B \<le> 1 then 0
      else g_plus_d1 gsl_sf_expint_Ei imp omega - g_minusWW_d1 imp omega)"

definition g_bar_d3 :: "B_Implementation \<Rightarrow> real \<Rightarrow> real" where
  "g_bar_d3 imp omega =
     (if debug_level_B \<le> 1 then 0
      else g_plus_d2 imp omega - g_minusWW_d2 imp omega)"

subsection \<open>Leading twist three-particle LCDAs\<close>

definition phi_3 :: "B_Implementation \<Rightarrow> real \<Rightarrow> real \<Rightarrow> real" where
  "phi_3 imp omega_1 omega_2 =
     (if debug_level_B \<le> 1 then 0
      else
        let omega_0 = lambda_B imp
        in (lambda_E2 imp - lambda_H2 imp) / (6 * omega_0 ^ 5) * omega_1 * omega_2 ^ 2 *
           exp (- (omega_1 + omega_2) / omega_0))"

definition phi_4 :: "B_Implementation \<Rightarrow> real \<Rightarrow> real \<Rightarrow> real" where
  "phi_4 imp omega_1 omega_2 =
     (if debug_level_B \<le> 1 then 0
      else
        let omega_0 = lambda_B imp
        in (lambda_E2 imp + lambda_H2 imp) / (6 * omega_0 ^ 4) * omega_2 ^ 2 *
           exp (- (omega_1 + omega_2) / omega_0))"

definition phi_bar_3 :: "B_Implementation \<Rightarrow> real \<Rightarrow> real \<Rightarrow> real" where
  "phi_bar_3 imp omega_1 omega_2 =
     (if debug_level_B \<le> 1 then 0
      else
        let omega_0 = lambda_B imp;
            termA = - (lambda_E2 imp - lambda_H2 imp) / (6 * omega_0 ^ 4) *
              (omega_0 + omega_1) * omega_2 * omega_2 * exp (- (omega_1 + omega_2) / omega_0);
            termB = (lambda_E2 imp - lambda_H2 imp) / (6 * omega_0 ^ 3) *
              omega_2 * omega_2 * exp (- omega_2 / omega_0)
        in termA + termB)"

definition phi_bar_4 :: "B_Implementation \<Rightarrow> real \<Rightarrow> real \<Rightarrow> real" where
  "phi_bar_4 imp omega_1 omega_2 =
     (if debug_level_B \<le> 1 then 0
      else
        let omega_0 = lambda_B imp;
            termA = - (lambda_E2 imp + lambda_H2 imp) / (6 * omega_0 ^ 3) *
              omega_2 * omega_2 * exp (- (omega_1 + omega_2) / omega_0);
            termB = (lambda_E2 imp + lambda_H2 imp) / (6 * omega_0 ^ 3) *
              omega_2 * omega_2 * exp (- omega_2 / omega_0)
        in termA + termB)"

definition phi_bar2_3 :: "B_Implementation \<Rightarrow> real \<Rightarrow> real \<Rightarrow> real" where
  "phi_bar2_3 imp omega_1 omega_2 =
     (if debug_level_B \<le> 1 then 0
      else
        let omega_0 = lambda_B imp;
            termA = - (lambda_E2 imp - lambda_H2 imp) / (6 * omega_0 ^ 4) * omega_1 *
              (2 * omega_0 * omega_0 + 2 * omega_0 * omega_2 + omega_2 * omega_2) *
              exp (- (omega_1 + omega_2) / omega_0);
            termB = (lambda_E2 imp - lambda_H2 imp) / (3 * omega_0 ^ 2) * omega_1 *
              exp (- omega_1 / omega_0)
        in termA + termB)"

definition phi_bar2_4 :: "B_Implementation \<Rightarrow> real \<Rightarrow> real \<Rightarrow> real" where
  "phi_bar2_4 imp omega_1 omega_2 =
     (if debug_level_B \<le> 1 then 0
      else
        let omega_0 = lambda_B imp;
            termA = - (lambda_E2 imp + lambda_H2 imp) / (6 * omega_0 ^ 3) *
              (2 * omega_0 * omega_0 + 2 * omega_0 * omega_2 + omega_2 * omega_2) *
              exp (- (omega_1 + omega_2) / omega_0);
            termB = (lambda_E2 imp + lambda_H2 imp) / (3 * omega_0) *
              exp (- omega_1 / omega_0)
        in termA + termB)"

definition phi_bar_bar_3 :: "B_Implementation \<Rightarrow> real \<Rightarrow> real \<Rightarrow> real" where
  "phi_bar_bar_3 imp omega_1 omega_2 =
     (if debug_level_B \<le> 1 then 0
      else
        let omega_0 = lambda_B imp;
            termA = (lambda_E2 imp - lambda_H2 imp) / (6 * omega_0 ^ 3) * (omega_0 + omega_1) *
              (2 * omega_0 * omega_0 + 2 * omega_0 * omega_2 + omega_2 * omega_2) *
              exp (- (omega_1 + omega_2) / omega_0);
            termB = - (lambda_E2 imp - lambda_H2 imp) / (3 * omega_0) * (omega_0 + omega_1) *
              exp (- omega_1 / omega_0);
            termC = - (lambda_E2 imp - lambda_H2 imp) / (6 * omega_0 ^ 2) *
              (2 * omega_0 * omega_0 + 2 * omega_0 * omega_2 + omega_2 * omega_2) *
              exp (- omega_2 / omega_0);
            termD = - 1 / 3 * (- lambda_E2 imp + lambda_H2 imp)
        in termA + termB + termC + termD)"

definition phi_bar_bar_4 :: "B_Implementation \<Rightarrow> real \<Rightarrow> real \<Rightarrow> real" where
  "phi_bar_bar_4 imp omega_1 omega_2 =
     (if debug_level_B \<le> 1 then 0
      else
        let omega_0 = lambda_B imp;
            termA = (lambda_E2 imp + lambda_H2 imp) / (6 * omega_0 ^ 2) *
              (2 * omega_0 * omega_0 + 2 * omega_0 * omega_2 + omega_2 * omega_2) *
              exp (- (omega_1 + omega_2) / omega_0);
            termB = - 1 / 3 * (lambda_E2 imp + lambda_H2 imp) * exp (- omega_1 / omega_0);
            termC = - (lambda_E2 imp + lambda_H2 imp) / (6 * omega_0 ^ 2) *
              (2 * omega_0 * omega_0 + 2 * omega_0 * omega_2 + omega_2 * omega_2) *
              exp (- omega_2 / omega_0);
            termD = - 1 / 3 * (- lambda_E2 imp - lambda_H2 imp)
        in termA + termB + termC + termD)"

definition psi_bar_4 :: "B_Implementation \<Rightarrow> real \<Rightarrow> real \<Rightarrow> real" where
  "psi_bar_4 imp omega_1 omega_2 =
     (if debug_level_B \<le> 1 then 0
      else
        let omega_0 = lambda_B imp;
            termA = - lambda_E2 imp / (3 * omega_0 ^ 3) * (omega_0 + omega_1) * omega_2 *
              exp (- (omega_1 + omega_2) / omega_0);
            termB = lambda_E2 imp / (3 * omega_0 ^ 2) * omega_2 * exp (- omega_2 / omega_0)
        in termA + termB)"

definition psi_bar_bar_4 :: "B_Implementation \<Rightarrow> real \<Rightarrow> real \<Rightarrow> real" where
  "psi_bar_bar_4 imp omega_1 omega_2 =
     (if debug_level_B \<le> 1 then 0
      else
        let omega_0 = lambda_B imp;
            termA = - lambda_E2 imp / (3 * omega_0 ^ 2) *
              ((- 1 + exp (omega_1 / omega_0)) * omega_0 - omega_1) * (omega_0 + omega_2) *
              exp (- (omega_1 + omega_2) / omega_0);
            termB = lambda_E2 imp / (3 * omega_0) *
              ((- 1 + exp (omega_1 / omega_0)) * omega_0 - omega_1) * exp (- omega_1 / omega_0)
        in termA + termB)"

definition chi_bar_4 :: "B_Implementation \<Rightarrow> real \<Rightarrow> real \<Rightarrow> real" where
  "chi_bar_4 imp omega_1 omega_2 =
     (if debug_level_B \<le> 1 then 0
      else
        let omega_0 = lambda_B imp;
            termA = - lambda_H2 imp / (3 * omega_0 ^ 3) * (omega_0 + omega_1) * omega_2 *
              exp (- (omega_1 + omega_2) / omega_0);
            termB = lambda_H2 imp / (3 * omega_0 ^ 2) * omega_2 * exp (- omega_2 / omega_0)
        in termA + termB)"

definition chi_bar_bar_4 :: "B_Implementation \<Rightarrow> real \<Rightarrow> real \<Rightarrow> real" where
  "chi_bar_bar_4 imp omega_1 omega_2 =
     (if debug_level_B \<le> 1 then 0
      else
        let omega_0 = lambda_B imp;
            termA = - lambda_H2 imp / (3 * omega_0 ^ 2) *
              ((- 1 + exp (omega_1 / omega_0)) * omega_0 - omega_1) * (omega_0 + omega_2) *
              exp (- (omega_1 + omega_2) / omega_0);
            termB = lambda_H2 imp / (3 * omega_0) *
              ((- 1 + exp (omega_1 / omega_0)) * omega_0 - omega_1) * exp (- omega_1 / omega_0)
        in termA + termB)"

definition psi_A :: "B_Implementation \<Rightarrow> real \<Rightarrow> real \<Rightarrow> real" where
  "psi_A imp omega xi =
     (if debug_level_B \<le> 1 then 0
      else
        let omega_0 = lambda_B imp;
            omega_0_2 = omega_0 * omega_0;
            omega_0_4 = omega_0_2 * omega_0_2;
            lambda_E_2 = 3 / 2 * omega_0_2
        in lambda_E_2 / (6 * omega_0_4) * xi * xi * exp (- (omega + xi) / omega_0))"

definition psi_V :: "B_Implementation \<Rightarrow> real \<Rightarrow> real \<Rightarrow> real" where
  "psi_V imp omega xi =
     (if debug_level_B \<le> 1 then 0 else psi_A imp omega xi)"

definition X_A :: "B_Implementation \<Rightarrow> real \<Rightarrow> real \<Rightarrow> real" where
  "X_A imp omega xi =
     (if debug_level_B \<le> 1 then 0
      else
        let omega_0 = lambda_B imp;
            omega_0_2 = omega_0 * omega_0;
            omega_0_4 = omega_0_2 * omega_0_2;
            lambda_E_2 = 3 / 2 * omega_0_2
        in lambda_E_2 / (6 * omega_0_4) * xi * (2 * omega - xi) *
           exp (- (omega + xi) / omega_0))"

definition Y_A :: "B_Implementation \<Rightarrow> real \<Rightarrow> real \<Rightarrow> real" where
  "Y_A imp omega xi =
     (if debug_level_B \<le> 1 then 0
      else
        let omega_0 = lambda_B imp;
            omega_0_2 = omega_0 * omega_0;
            omega_0_4 = omega_0_2 * omega_0_2;
            lambda_E_2 = 3 / 2 * omega_0_2
        in - lambda_E_2 / (24 * omega_0_4) * xi * (7 * omega_0 - 13 * omega + 3 * xi) *
           exp (- (omega + xi) / omega_0))"

definition Xbar_A :: "B_Implementation \<Rightarrow> real \<Rightarrow> real \<Rightarrow> real" where
  "Xbar_A imp omega xi =
     (if debug_level_B \<le> 1 then 0
      else
        let omega_0 = lambda_B imp;
            omega_0_2 = omega_0 * omega_0;
            omega_0_3 = omega_0_2 * omega_0;
            lambda_E_2 = 3 / 2 * omega_0_2
        in lambda_E_2 / (6 * omega_0_3) * xi * exp (- (xi + omega) / omega_0) *
           (xi - 2 * (omega + omega_0) + exp (omega / omega_0) * (2 * omega_0 - xi)))"

definition Ybar_A :: "B_Implementation \<Rightarrow> real \<Rightarrow> real \<Rightarrow> real" where
  "Ybar_A imp omega xi =
     (if debug_level_B \<le> 1 then 0
      else
        let omega_0 = lambda_B imp;
            omega_0_2 = omega_0 * omega_0;
            omega_0_3 = omega_0_2 * omega_0;
            lambda_E_2 = 3 / 2 * omega_0_2
        in - lambda_E_2 / (24 * omega_0_3) * xi * exp (- (xi + omega) / omega_0) *
           (- 3 * xi + 13 * omega + 6 * omega_0 +
            3 * exp (omega / omega_0) * (xi - 2 * omega_0)))"

subsection \<open>The public class \<open>BMesonLCDAs\<close>\<close>

text \<open>
  Every public method forwards to the implementation object \<open>_imp\<close>; only
  \<open>inverse_lambda_plus\<close> computes something of its own.
\<close>

definition BMesonLCDAs_phi_plus :: "B_Implementation \<Rightarrow> real \<Rightarrow> real" where
  "BMesonLCDAs_phi_plus imp omega = phi_plus imp omega"

definition BMesonLCDAs_phi_minus :: "B_Implementation \<Rightarrow> real \<Rightarrow> real" where
  "BMesonLCDAs_phi_minus imp omega = phi_minus imp omega"

definition BMesonLCDAs_phi_bar :: "B_Implementation \<Rightarrow> real \<Rightarrow> real" where
  "BMesonLCDAs_phi_bar imp omega = phi_bar imp omega"

definition BMesonLCDAs_phi_bar_d1 :: "B_Implementation \<Rightarrow> real \<Rightarrow> real" where
  "BMesonLCDAs_phi_bar_d1 imp omega = phi_bar_d1 imp omega"

definition BMesonLCDAs_g_plus :: "(real \<Rightarrow> real) \<Rightarrow> B_Implementation \<Rightarrow> real \<Rightarrow> real" where
  "BMesonLCDAs_g_plus gsl_sf_expint_Ei imp omega = g_plus gsl_sf_expint_Ei imp omega"

definition BMesonLCDAs_g_plus_d1 :: "(real \<Rightarrow> real) \<Rightarrow> B_Implementation \<Rightarrow> real \<Rightarrow> real" where
  "BMesonLCDAs_g_plus_d1 gsl_sf_expint_Ei imp omega = g_plus_d1 gsl_sf_expint_Ei imp omega"

definition BMesonLCDAs_g_plus_d2 :: "B_Implementation \<Rightarrow> real \<Rightarrow> real" where
  "BMesonLCDAs_g_plus_d2 imp omega = g_plus_d2 imp omega"

definition BMesonLCDAs_g_minusWW :: "B_Implementation \<Rightarrow> real \<Rightarrow> real" where
  "BMesonLCDAs_g_minusWW imp omega = g_minusWW imp omega"

definition BMesonLCDAs_g_minusWW_d1 :: "B_Implementation \<Rightarrow> real \<Rightarrow> real" where
  "BMesonLCDAs_g_minusWW_d1 imp omega = g_minusWW_d1 imp omega"

definition BMesonLCDAs_g_minusWW_d2 :: "B_Implementation \<Rightarrow> real \<Rightarrow> real" where
  "BMesonLCDAs_g_minusWW_d2 imp omega = g_minusWW_d2 imp omega"

definition BMesonLCDAs_g_bar :: "(real \<Rightarrow> real) \<Rightarrow> B_Implementation \<Rightarrow> real \<Rightarrow> real" where
  "BMesonLCDAs_g_bar gsl_sf_expint_Ei imp omega = g_bar gsl_sf_expint_Ei imp omega"

definition BMesonLCDAs_g_bar_d1 :: "(real \<Rightarrow> real) \<Rightarrow> B_Implementation \<Rightarrow> real \<Rightarrow> real" where
  "BMesonLCDAs_g_bar_d1 gsl_sf_expint_Ei imp omega = g_bar_d1 gsl_sf_expint_Ei imp omega"

definition BMesonLCDAs_g_bar_d2 :: "(real \<Rightarrow> real) \<Rightarrow> B_Implementation \<Rightarrow> real \<Rightarrow> real" where
  "BMesonLCDAs_g_bar_d2 gsl_sf_expint_Ei imp omega = g_bar_d2 gsl_sf_expint_Ei imp omega"

definition BMesonLCDAs_g_bar_d3 :: "B_Implementation \<Rightarrow> real \<Rightarrow> real" where
  "BMesonLCDAs_g_bar_d3 imp omega = g_bar_d3 imp omega"

definition BMesonLCDAs_phi_3 :: "B_Implementation \<Rightarrow> real \<Rightarrow> real \<Rightarrow> real" where
  "BMesonLCDAs_phi_3 imp omega_1 omega_2 = phi_3 imp omega_1 omega_2"

definition BMesonLCDAs_phi_4 :: "B_Implementation \<Rightarrow> real \<Rightarrow> real \<Rightarrow> real" where
  "BMesonLCDAs_phi_4 imp omega_1 omega_2 = phi_4 imp omega_1 omega_2"

definition BMesonLCDAs_phi_bar_3 :: "B_Implementation \<Rightarrow> real \<Rightarrow> real \<Rightarrow> real" where
  "BMesonLCDAs_phi_bar_3 imp omega_1 omega_2 = phi_bar_3 imp omega_1 omega_2"

definition BMesonLCDAs_phi_bar_4 :: "B_Implementation \<Rightarrow> real \<Rightarrow> real \<Rightarrow> real" where
  "BMesonLCDAs_phi_bar_4 imp omega_1 omega_2 = phi_bar_4 imp omega_1 omega_2"

definition BMesonLCDAs_phi_bar2_3 :: "B_Implementation \<Rightarrow> real \<Rightarrow> real \<Rightarrow> real" where
  "BMesonLCDAs_phi_bar2_3 imp omega_1 omega_2 = phi_bar2_3 imp omega_1 omega_2"

definition BMesonLCDAs_phi_bar2_4 :: "B_Implementation \<Rightarrow> real \<Rightarrow> real \<Rightarrow> real" where
  "BMesonLCDAs_phi_bar2_4 imp omega_1 omega_2 = phi_bar2_4 imp omega_1 omega_2"

definition BMesonLCDAs_phi_bar_bar_3 :: "B_Implementation \<Rightarrow> real \<Rightarrow> real \<Rightarrow> real" where
  "BMesonLCDAs_phi_bar_bar_3 imp omega_1 omega_2 = phi_bar_bar_3 imp omega_1 omega_2"

definition BMesonLCDAs_phi_bar_bar_4 :: "B_Implementation \<Rightarrow> real \<Rightarrow> real \<Rightarrow> real" where
  "BMesonLCDAs_phi_bar_bar_4 imp omega_1 omega_2 = phi_bar_bar_4 imp omega_1 omega_2"

definition BMesonLCDAs_psi_bar_4 :: "B_Implementation \<Rightarrow> real \<Rightarrow> real \<Rightarrow> real" where
  "BMesonLCDAs_psi_bar_4 imp omega_1 omega_2 = psi_bar_4 imp omega_1 omega_2"

definition BMesonLCDAs_psi_bar_bar_4 :: "B_Implementation \<Rightarrow> real \<Rightarrow> real \<Rightarrow> real" where
  "BMesonLCDAs_psi_bar_bar_4 imp omega_1 omega_2 = psi_bar_bar_4 imp omega_1 omega_2"

definition BMesonLCDAs_chi_bar_4 :: "B_Implementation \<Rightarrow> real \<Rightarrow> real \<Rightarrow> real" where
  "BMesonLCDAs_chi_bar_4 imp omega_1 omega_2 = chi_bar_4 imp omega_1 omega_2"

definition BMesonLCDAs_chi_bar_bar_4 :: "B_Implementation \<Rightarrow> real \<Rightarrow> real \<Rightarrow> real" where
  "BMesonLCDAs_chi_bar_bar_4 imp omega_1 omega_2 = chi_bar_bar_4 imp omega_1 omega_2"

definition BMesonLCDAs_inverse_lambda_plus :: "B_Implementation \<Rightarrow> real" where
  "BMesonLCDAs_inverse_lambda_plus imp = 1 / lambda_B imp"

definition BMesonLCDAs_psi_A :: "B_Implementation \<Rightarrow> real \<Rightarrow> real \<Rightarrow> real" where
  "BMesonLCDAs_psi_A imp omega xi = psi_A imp omega xi"

definition BMesonLCDAs_psi_V :: "B_Implementation \<Rightarrow> real \<Rightarrow> real \<Rightarrow> real" where
  "BMesonLCDAs_psi_V imp omega xi = psi_V imp omega xi"

definition BMesonLCDAs_X_A :: "B_Implementation \<Rightarrow> real \<Rightarrow> real \<Rightarrow> real" where
  "BMesonLCDAs_X_A imp omega xi = X_A imp omega xi"

definition BMesonLCDAs_Y_A :: "B_Implementation \<Rightarrow> real \<Rightarrow> real \<Rightarrow> real" where
  "BMesonLCDAs_Y_A imp omega xi = Y_A imp omega xi"

definition BMesonLCDAs_Xbar_A :: "B_Implementation \<Rightarrow> real \<Rightarrow> real \<Rightarrow> real" where
  "BMesonLCDAs_Xbar_A imp omega xi = Xbar_A imp omega xi"

definition BMesonLCDAs_Ybar_A :: "B_Implementation \<Rightarrow> real \<Rightarrow> real \<Rightarrow> real" where
  "BMesonLCDAs_Ybar_A imp omega xi = Ybar_A imp omega xi"

section \<open>Light-cone distribution amplitudes of the B_c meson (b-lcdas.cc)\<close>

record Bc_Implementation =
  Bc_opt_q :: string
  Bc_N0 :: real
  Bc_omega_0 :: real
  Bc_lambda_E2 :: real
  Bc_lambda_H2 :: real
  Bc_opt_gminus :: string
  Bc_switch_gminus :: real

definition Bc_N1 :: "Bc_Implementation \<Rightarrow> real" where
  "Bc_N1 imp = 1 - Bc_N0 imp"

definition Bc_phi_plus :: "Bc_Implementation \<Rightarrow> real \<Rightarrow> real" where
  "Bc_phi_plus imp omega =
     (let omega_0 = Bc_omega_0 imp; N0 = Bc_N0 imp; N1 = Bc_N1 imp
      in omega / omega_0 ^ 2 * (N0 + N1 * omega / 2 / omega_0) * exp (- omega / omega_0))"

definition Bc_phi_minus :: "(real \<Rightarrow> real \<Rightarrow> real) \<Rightarrow> Bc_Implementation \<Rightarrow> real \<Rightarrow> real" where
  "Bc_phi_minus gsl_sf_gamma_inc imp omega =
     (let omega_0 = Bc_omega_0 imp; N0 = Bc_N0 imp; N1 = Bc_N1 imp; m = 1.3
      in exp (- omega / omega_0) / omega_0 *
           (N0 * (m / omega_0 + 1)
            + 0.5 * N1 * (omega / omega_0 + 1) *
              ((m * (omega - omega_0)) / (omega_0 * (omega + omega_0)) + 1))
         - N0 * m / omega_0 ^ 2 * gsl_sf_gamma_inc 0 (omega / omega_0))"

definition Bc_phi_bar :: "(real \<Rightarrow> real \<Rightarrow> real) \<Rightarrow> Bc_Implementation \<Rightarrow> real \<Rightarrow> real" where
  "Bc_phi_bar gsl_sf_gamma_inc imp omega =
     (let omega_0 = Bc_omega_0 imp; N0 = Bc_N0 imp; N1 = Bc_N1 imp; m = 1.3
      in N0 * omega / omega_0 ^ 2 *
           (m * gsl_sf_gamma_inc 0 (omega / omega_0) - omega_0 * exp (- omega / omega_0))
         - N1 * omega / (2 * omega_0 ^ 2) *
           (exp (- omega / omega_0) * (omega + omega_0 - m)))"

definition Bc_phi_bar_d1 :: "(real \<Rightarrow> real \<Rightarrow> real) \<Rightarrow> Bc_Implementation \<Rightarrow> real \<Rightarrow> real" where
  "Bc_phi_bar_d1 gsl_sf_gamma_inc imp omega =
     (let omega_0 = Bc_omega_0 imp; N0 = Bc_N0 imp; N1 = Bc_N1 imp; m = 1.3
      in N0 / omega_0 *
           (exp (- omega / omega_0) * ((omega - m) / omega_0 - 1)
            + m / omega_0 * gsl_sf_gamma_inc 0 (omega / omega_0))
         + N1 / 2 / omega_0 * exp (- omega / omega_0) *
           (m / omega_0 * (1 - omega / omega_0)
            - omega / omega_0 * (1 - omega / omega_0)
            - 1))"

text \<open>The remaining methods of the implementation are marked \<open>TODO\<close> and return the literal 0.\<close>

definition Bc_g_minusWW :: "Bc_Implementation \<Rightarrow> real \<Rightarrow> real" where
  "Bc_g_minusWW imp omega = 0"

definition Bc_g_minusWW_d1 :: "Bc_Implementation \<Rightarrow> real \<Rightarrow> real" where
  "Bc_g_minusWW_d1 imp omega = 0"

definition Bc_g_minusWW_d2 :: "Bc_Implementation \<Rightarrow> real \<Rightarrow> real" where
  "Bc_g_minusWW_d2 imp omega = 0"

definition Bc_g_plus :: "Bc_Implementation \<Rightarrow> real \<Rightarrow> real" where
  "Bc_g_plus imp omega = 0"

definition Bc_g_plus_d1 :: "Bc_Implementation \<Rightarrow> real \<Rightarrow> real" where
  "Bc_g_plus_d1 imp omega = 0"

definition Bc_g_plus_d2 :: "Bc_Implementation \<Rightarrow> real \<Rightarrow> real" where
  "Bc_g_plus_d2 imp omega = 0"

definition Bc_g_bar :: "Bc_Implementation \<Rightarrow> real \<Rightarrow> real" where
  "Bc_g_bar imp omega = 0"

definition Bc_g_bar_d1 :: "Bc_Implementation \<Rightarrow> real \<Rightarrow> real" where
  "Bc_g_bar_d1 imp omega = 0"

definition Bc_g_bar_d2 :: "Bc_Implementation \<Rightarrow> real \<Rightarrow> real" where
  "Bc_g_bar_d2 imp omega = 0"

definition Bc_g_bar_d3 :: "Bc_Implementation \<Rightarrow> real \<Rightarrow> real" where
  "Bc_g_bar_d3 imp omega = 0"

definition Bc_phi_3 :: "Bc_Implementation \<Rightarrow> real \<Rightarrow> real \<Rightarrow> real" where
  "Bc_phi_3 imp omega_1 omega_2 = 0"

definition Bc_phi_4 :: "Bc_Implementation \<Rightarrow> real \<Rightarrow> real \<Rightarrow> real" where
  "Bc_phi_4 imp omega_1 omega_2 = 0"

definition Bc_phi_bar_3 :: "Bc_Implementation \<Rightarrow> real \<Rightarrow> real \<Rightarrow> real" where
  "Bc_phi_bar_3 imp omega_1 omega_2 = 0"

definition Bc_phi_bar_4 :: "Bc_Implementation \<Rightarrow> real \<Rightarrow> real \<Rightarrow> real" where
  "Bc_phi_bar_4 imp omega_1 omega_2 = 0"

definition Bc_phi_bar2_3 :: "Bc_Implementation \<Rightarrow> real \<Rightarrow> real \<Rightarrow> real" where
  "Bc_phi_bar2_3 imp omega_1 omega_2 = 0"

definition Bc_phi_bar2_4 :: "Bc_Implementation \<Rightarrow> real \<Rightarrow> real \<Rightarrow> real" where
  "Bc_phi_bar2_4 imp omega_1 omega_2 = 0"

definition Bc_phi_bar_bar_3 :: "Bc_Implementation \<Rightarrow> real \<Rightarrow> real \<Rightarrow> real" where
  "Bc_phi_bar_bar_3 imp omega_1 omega_2 = 0"

definition Bc_phi_bar_bar_4 :: "Bc_Implementation \<Rightarrow> real \<Rightarrow> real \<Rightarrow> real" where
  "Bc_phi_bar_bar_4 imp omega_1 omega_2 = 0"

definition Bc_psi_bar_4 :: "Bc_Implementation \<Rightarrow> real \<Rightarrow> real \<Rightarrow> real" where
  "Bc_psi_bar_4 imp omega_1 omega_2 = 0"

definition Bc_psi_bar_bar_4 :: "Bc_Implementation \<Rightarrow> real \<Rightarrow> real \<Rightarrow> real" where
  "Bc_psi_bar_bar_4 imp omega_1 omega_2 = 0"

definition Bc_chi_bar_4 :: "Bc_Implementation \<Rightarrow> real \<Rightarrow> real \<Rightarrow> real" where
  "Bc_chi_bar_4 imp omega_1 omega_2 = 0"

definition Bc_chi_bar_bar_4 :: "Bc_Implementation \<Rightarrow> real \<Rightarrow> real \<Rightarrow> real" where
  "Bc_chi_bar_bar_4 imp omega_1 omega_2 = 0"

definition Bc_psi_A :: "Bc_Implementation \<Rightarrow> real \<Rightarrow> real \<Rightarrow> real" where
  "Bc_psi_A imp omega xi = 0"

definition Bc_psi_V :: "Bc_Implementation \<Rightarrow> real \<Rightarrow> real \<Rightarrow> real" where
  "Bc_psi_V imp omega xi = 0"

definition Bc_X_A :: "Bc_Implementation \<Rightarrow> real \<Rightarrow> real \<Rightarrow> real" where
  "Bc_X_A imp omega xi = 0"

definition Bc_Y_A :: "Bc_Implementation \<Rightarrow> real \<Rightarrow> real \<Rightarrow> real" where
  "Bc_Y_A imp omega xi = 0"

definition Bc_Xbar_A :: "Bc_Implementation \<Rightarrow> real \<Rightarrow> real \<Rightarrow> real" where
  "Bc_Xbar_A imp omega xi = 0"

definition Bc_Ybar_A :: "Bc_Implementation \<Rightarrow> real \<Rightarrow> real \<Rightarrow> real" where
  "Bc_Ybar_A imp omega xi = 0"

subsection \<open>The public class \<open>BcMesonLCDAs\<close>\<close>

definition BcMesonLCDAs_inverse_lambda_plus :: "Bc_Implementation \<Rightarrow> real" where
  "BcMesonLCDAs_inverse_lambda_plus imp = 0"

definition BcMesonLCDAs_phi_plus :: "Bc_Implementation \<Rightarrow> real \<Rightarrow> real" where
  "BcMesonLCDAs_phi_plus imp omega = Bc_phi_plus imp omega"

definition BcMesonLCDAs_phi_minus :: "(real \<Rightarrow> real \<Rightarrow> real) \<Rightarrow> Bc_Implementation \<Rightarrow> real \<Rightarrow> real" where
  "BcMesonLCDAs_phi_minus gsl_sf_gamma_inc imp omega = Bc_phi_minus gsl_sf_gamma_inc imp omega"

definition BcMesonLCDAs_phi_bar :: "(real \<Rightarrow> real \<Rightarrow> real) \<Rightarrow> Bc_Implementation \<Rightarrow> real \<Rightarrow> real" where
  "BcMesonLCDAs_phi_bar gsl_sf_gamma_inc imp omega = Bc_phi_bar gsl_sf_gamma_inc imp omega"

definition BcMesonLCDAs_phi_bar_d1 :: "(real \<Rightarrow> real \<Rightarrow> real) \<Rightarrow> Bc_Implementation \<Rightarrow> real \<Rightarrow> real" where
  "BcMesonLCDAs_phi_bar_d1 gsl_sf_gamma_inc imp omega = Bc_phi_bar_d1 gsl_sf_gamma_inc imp omega"

definition BcMesonLCDAs_g_plus :: "Bc_Implementation \<Rightarrow> real \<Rightarrow> real" where
  "BcMesonLCDAs_g_plus imp omega = Bc_g_plus imp omega"

definition BcMesonLCDAs_g_plus_d1 :: "Bc_Implementation \<Rightarrow> real \<Rightarrow> real" where
  "BcMesonLCDAs_g_plus_d1 imp omega = Bc_g_plus_d1 imp omega"

definition BcMesonLCDAs_g_plus_d2 :: "Bc_Implementation \<Rightarrow> real \<Rightarrow> real" where
  "BcMesonLCDAs_g_plus_d2 imp omega = Bc_g_plus_d2 imp omega"

definition BcMesonLCDAs_g_minusWW :: "Bc_Implementation \<Rightarrow> real \<Rightarrow> real" where
  "BcMesonLCDAs_g_minusWW imp omega = Bc_g_minusWW imp omega"

definition BcMesonLCDAs_g_minusWW_d1 :: "Bc_Implementation \<Rightarrow> real \<Rightarrow> real" where
  "BcMesonLCDAs_g_minusWW_d1 imp omega = Bc_g_minusWW_d1 imp omega"

definition BcMesonLCDAs_g_minusWW_d2 :: "Bc_Implementation \<Rightarrow> real \<Rightarrow> real" where
  "BcMesonLCDAs_g_minusWW_d2 imp omega = Bc_g_minusWW_d2 imp omega"

definition BcMesonLCDAs_g_bar :: "Bc_Implementation \<Rightarrow> real \<Rightarrow> real" where
  "BcMesonLCDAs_g_bar imp omega = Bc_g_bar imp omega"

definition BcMesonLCDAs_g_bar_d1 :: "Bc_Implementation \<Rightarrow> real \<Rightarrow> real" where
  "BcMesonLCDAs_g_bar_d1 imp omega = Bc_g_bar_d1 imp omega"

definition BcMesonLCDAs_g_bar_d2 :: "Bc_Implementation \<Rightarrow> real \<Rightarrow> real" where
  "BcMesonLCDAs_g_bar_d2 imp omega = Bc_g_bar_d2 imp omega"

definition BcMesonLCDAs_g_bar_d3 :: "Bc_Implementation \<Rightarrow> real \<Rightarrow> real" where
  "BcMesonLCDAs_g_bar_d3 imp omega = Bc_g_bar_d3 imp omega"

definition BcMesonLCDAs_phi_3 :: "Bc_Implementation \<Rightarrow> real \<Rightarrow> real \<Rightarrow> real" where
  "BcMesonLCDAs_phi_3 imp omega_1 omega_2 = Bc_phi_3 imp omega_1 omega_2"

definition BcMesonLCDAs_phi_4 :: "Bc_Implementation \<Rightarrow> real \<Rightarrow> real \<Rightarrow> real" where
  "BcMesonLCDAs_phi_4 imp omega_1 omega_2 = Bc_phi_4 imp omega_1 omega_2"

definition BcMesonLCDAs_phi_bar_3 :: "Bc_Implementation \<Rightarrow> real \<Rightarrow> real \<Rightarrow> real" where
  "BcMesonLCDAs_phi_bar_3 imp omega_1 omega_2 = Bc_phi_bar_3 imp omega_1 omega_2"

definition BcMesonLCDAs_phi_bar_4 :: "Bc_Implementation \<Rightarrow> real \<Rightarrow> real \<Rightarrow> real" where
  "BcMesonLCDAs_phi_bar_4 imp omega_1 omega_2 = Bc_phi_bar_4 imp omega_1 omega_2"

definition BcMesonLCDAs_phi_bar2_3 :: "Bc_Implementation \<Rightarrow> real \<Rightarrow> real \<Rightarrow> real" where
  "BcMesonLCDAs_phi_bar2_3 imp omega_1 omega_2 = Bc_phi_bar2_3 imp omega_1 omega_2"

definition BcMesonLCDAs_phi_bar2_4 :: "Bc_Implementation \<Rightarrow> real \<Rightarrow> real \<Rightarrow> real" where
  "BcMesonLCDAs_phi_bar2_4 imp omega_1 omega_2 = Bc_phi_bar2_4 imp omega_1 omega_2"

definition BcMesonLCDAs_phi_bar_bar_3 :: "Bc_Implementation \<Rightarrow> real \<Rightarrow> real \<Rightarrow> real" where
  "BcMesonLCDAs_phi_bar_bar_3 imp omega_1 omega_2 = Bc_phi_bar_bar_3 imp omega_1 omega_2"

definition BcMesonLCDAs_phi_bar_bar_4 :: "Bc_Implementation \<Rightarrow> real \<Rightarrow> real \<Rightarrow> real" where
  "BcMesonLCDAs_phi_bar_bar_4 imp omega_1 omega_2 = Bc_phi_bar_bar_4 imp omega_1 omega_2"

definition BcMesonLCDAs_psi_bar_4 :: "Bc_Implementation \<Rightarrow> real \<Rightarrow> real \<Rightarrow> real" where
  "BcMesonLCDAs_psi_bar_4 imp omega_1 omega_2 = Bc_psi_bar_4 imp omega_1 omega_2"

definition BcMesonLCDAs_psi_bar_bar_4 :: "Bc_Implementation \<Rightarrow> real \<Rightarrow> real \<Rightarrow> real" where
  "BcMesonLCDAs_psi_bar_bar_4 imp omega_1 omega_2 = Bc_psi_bar_bar_4 imp omega_1 omega_2"

definition BcMesonLCDAs_chi_bar_4 :: "Bc_Implementation \<Rightarrow> real \<Rightarrow> real \<Rightarrow> real" where
  "BcMesonLCDAs_chi_bar_4 imp omega_1 omega_2 = Bc_chi_bar_4 imp omega_1 omega_2"

definition BcMesonLCDAs_chi_bar_bar_4 :: "Bc_Implementation \<Rightarrow> real \<Rightarrow> real \<Rightarrow> real" where
  "BcMesonLCDAs_chi_bar_bar_4 imp omega_1 omega_2 = Bc_chi_bar_bar_4 imp omega_1 omega_2"

definition BcMesonLCDAs_psi_A :: "Bc_Implementation \<Rightarrow> real \<Rightarrow> real \<Rightarrow> real" where
  "BcMesonLCDAs_psi_A imp omega xi = Bc_psi_A imp omega xi"

definition BcMesonLCDAs_psi_V :: "Bc_Implementation \<Rightarrow> real \<Rightarrow> real \<Rightarrow> real" where
  "BcMesonLCDAs_psi_V imp omega xi = Bc_psi_V imp omega xi"

definition BcMesonLCDAs_X_A :: "Bc_Implementation \<Rightarrow> real \<Rightarrow> real \<Rightarrow> real" where
  "BcMesonLCDAs_X_A imp omega xi = Bc_X_A imp omega xi"

definition BcMesonLCDAs_Y_A :: "Bc_Implementation \<Rightarrow> real \<Rightarrow> real \<Rightarrow> real" where
  "BcMesonLCDAs_Y_A imp omega xi = Bc_Y_A imp omega xi"

definition BcMesonLCDAs_Xbar_A :: "Bc_Implementation \<Rightarrow> real \<Rightarrow> real \<Rightarrow> real" where
  "BcMesonLCDAs_Xbar_A imp omega xi = Bc_Xbar_A imp omega xi"

definition BcMesonLCDAs_Ybar_A :: "Bc_Implementation \<Rightarrow> real \<Rightarrow> real \<Rightarrow> real" where
  "BcMesonLCDAs_Ybar_A imp omega xi = Bc_Ybar_A imp omega xi"

section \<open>Properties of the LCDAs\<close>

lemma debug_level_B_le_1: "debug_level_B \<le> 1"
  by (simp add: debug_level_B_def)

lemmas B_imp_defs =
  phi_minus_def phi_bar_def phi_bar_d1_def g_plus_def g_plus_d1_def g_plus_d2_def
  g_minusWW_def g_minusWW_d1_def g_minusWW_d2_def g_bar_def g_bar_d1_def g_bar_d2_def
  g_bar_d3_def phi_3_def phi_4_def phi_bar_3_def phi_bar_4_def phi_bar2_3_def
  phi_bar2_4_def phi_bar_bar_3_def phi_bar_bar_4_def psi_bar_4_def psi_bar_bar_4_def chi_bar_4_def
  chi_bar_bar_4_def psi_A_def psi_V_def X_A_def Y_A_def Xbar_A_def
  Ybar_A_def

lemmas BMesonLCDAs_defs =
  BMesonLCDAs_phi_minus_def BMesonLCDAs_phi_bar_def BMesonLCDAs_phi_bar_d1_def BMesonLCDAs_g_plus_def
  BMesonLCDAs_g_plus_d1_def BMesonLCDAs_g_plus_d2_def BMesonLCDAs_g_minusWW_def BMesonLCDAs_g_minusWW_d1_def
  BMesonLCDAs_g_minusWW_d2_def BMesonLCDAs_g_bar_def BMesonLCDAs_g_bar_d1_def BMesonLCDAs_g_bar_d2_def
  BMesonLCDAs_g_bar_d3_def BMesonLCDAs_phi_3_def BMesonLCDAs_phi_4_def BMesonLCDAs_phi_bar_3_def
  BMesonLCDAs_phi_bar_4_def BMesonLCDAs_phi_bar2_3_def BMesonLCDAs_phi_bar2_4_def BMesonLCDAs_phi_bar_bar_3_def
  BMesonLCDAs_phi_bar_bar_4_def BMesonLCDAs_psi_bar_4_def BMesonLCDAs_psi_bar_bar_4_def BMesonLCDAs_chi_bar_4_def
  BMesonLCDAs_chi_bar_bar_4_def BMesonLCDAs_psi_A_def BMesonLCDAs_psi_V_def BMesonLCDAs_X_A_def
  BMesonLCDAs_Y_A_def BMesonLCDAs_Xbar_A_def BMesonLCDAs_Ybar_A_def

text \<open>
  Claim C3. For every implementation object (every value of the parameters and options),
  every external exponential-integral routine and every argument, each public method of
  \<open>BMesonLCDAs\<close> other than \<open>phi_plus\<close> and \<open>inverse_lambda_plus\<close> returns exactly 0:
  the guard \<open>debug_level_B <= 1.0\<close> holds for the constant \<open>debug_level_B = 1.0\<close>, so the
  formulas after it are never evaluated.
\<close>

theorem BMesonLCDAs_only_phi_plus:
  "BMesonLCDAs_phi_minus imp omega = 0 \<and>
   BMesonLCDAs_phi_bar imp omega = 0 \<and>
   BMesonLCDAs_phi_bar_d1 imp omega = 0 \<and>
   BMesonLCDAs_g_plus Ei imp omega = 0 \<and>
   BMesonLCDAs_g_plus_d1 Ei imp omega = 0 \<and>
   BMesonLCDAs_g_plus_d2 imp omega = 0 \<and>
   BMesonLCDAs_g_minusWW imp omega = 0 \<and>
   BMesonLCDAs_g_minusWW_d1 imp omega = 0 \<and>
   BMesonLCDAs_g_minusWW_d2 imp omega = 0 \<and>
   BMesonLCDAs_g_bar Ei imp omega = 0 \<and>
   BMesonLCDAs_g_bar_d1 Ei imp omega = 0 \<and>
   BMesonLCDAs_g_bar_d2 Ei imp omega = 0 \<and>
   BMesonLCDAs_g_bar_d3 imp omega = 0 \<and>
   BMesonLCDAs_phi_3 imp omega_1 omega_2 = 0 \<and>
   BMesonLCDAs_phi_4 imp omega_1 omega_2 = 0 \<and>
   BMesonLCDAs_phi_bar_3 imp omega_1 omega_2 = 0 \<and>
   BMesonLCDAs_phi_bar_4 imp omega_1 omega_2 = 0 \<and>
   BMesonLCDAs_phi_bar2_3 imp omega_1 omega_2 = 0 \<and>
   BMesonLCDAs_phi_bar2_4 imp omega_1 omega_2 = 0 \<and>
   BMesonLCDAs_phi_bar_bar_3 imp omega_1 omega_2 = 0 \<and>
   BMesonLCDAs_phi_bar_bar_4 imp omega_1 omega_2 = 0 \<and>
   BMesonLCDAs_psi_bar_4 imp omega_1 omega_2 = 0 \<and>
   BMesonLCDAs_psi_bar_bar_4 imp omega_1 omega_2 = 0 \<and>
   BMesonLCDAs_chi_bar_4 imp omega_1 omega_2 = 0 \<and>
   BMesonLCDAs_chi_bar_bar_4 imp omega_1 omega_2 = 0 \<and>
   BMesonLCDAs_psi_A imp omega xi = 0 \<and>
   BMesonLCDAs_psi_V imp omega xi = 0 \<and>
   BMesonLCDAs_X_A imp omega xi = 0 \<and>
   BMesonLCDAs_Y_A imp omega xi = 0 \<and>
   BMesonLCDAs_Xbar_A imp omega xi = 0 \<and>
   BMesonLCDAs_Ybar_A imp omega xi = 0"
  unfolding BMesonLCDAs_defs B_imp_defs
  by (simp only: debug_level_B_le_1 if_True simp_thms)

text \<open>
  The guard is what silences them: \<open>phi_plus\<close>, which has no guard, is not identically
  zero.
\<close>

lemma BMesonLCDAs_phi_plus_nonzero:
  "BMesonLCDAs_phi_plus \<lparr>opt_q = ''u'', lambda_B_inv = 1, lambda_E2 = 0, lambda_H2 = 0,
      opt_gminus = ''WW-limit'', switch_gminus = 1\<rparr> 1 = exp (- 1)"
  by (simp add: BMesonLCDAs_phi_plus_def phi_plus_def lambda_B_def)

lemmas Bc_imp_defs =
  Bc_g_plus_def Bc_g_plus_d1_def Bc_g_plus_d2_def Bc_g_minusWW_def Bc_g_minusWW_d1_def Bc_g_minusWW_d2_def
  Bc_g_bar_def Bc_g_bar_d1_def Bc_g_bar_d2_def Bc_g_bar_d3_def Bc_phi_3_def Bc_phi_4_def
  Bc_phi_bar_3_def Bc_phi_bar_4_def Bc_phi_bar2_3_def Bc_phi_bar2_4_def Bc_phi_bar_bar_3_def Bc_phi_bar_bar_4_def
  Bc_psi_bar_4_def Bc_psi_bar_bar_4_def Bc_chi_bar_4_def Bc_chi_bar_bar_4_def Bc_psi_A_def Bc_psi_V_def
  Bc_X_A_def Bc_Y_A_def Bc_Xbar_A_def Bc_Ybar_A_def

lemmas BcMesonLCDAs_defs =
  BcMesonLCDAs_g_plus_def BcMesonLCDAs_g_plus_d1_def BcMesonLCDAs_g_plus_d2_def BcMesonLCDAs_g_minusWW_def
  BcMesonLCDAs_g_minusWW_d1_def BcMesonLCDAs_g_minusWW_d2_def BcMesonLCDAs_g_bar_def BcMesonLCDAs_g_bar_d1_def
  BcMesonLCDAs_g_bar_d2_def BcMesonLCDAs_g_bar_d3_def BcMesonLCDAs_phi_3_def BcMesonLCDAs_phi_4_def
  BcMesonLCDAs_phi_bar_3_def BcMesonLCDAs_phi_bar_4_def BcMesonLCDAs_phi_bar2_3_def BcMesonLCDAs_phi_bar2_4_def
  BcMesonLCDAs_phi_bar_bar_3_def BcMesonLCDAs_phi_bar_bar_4_def BcMesonLCDAs_psi_bar_4_def BcMesonLCDAs_psi_bar_bar_4_def
  BcMesonLCDAs_chi_bar_4_def BcMesonLCDAs_chi_bar_bar_4_def BcMesonLCDAs_psi_A_def BcMesonLCDAs_psi_V_def
  BcMesonLCDAs_X_A_def BcMesonLCDAs_Y_A_def BcMesonLCDAs_Xbar_A_def BcMesonLCDAs_Ybar_A_def
  BcMesonLCDAs_inverse_lambda_plus_def

text \<open>
  Claim C9. For every implementation object and every argument, each method of
  \<open>BcMesonLCDAs\<close> other than \<open>phi_plus\<close>, \<open>phi_minus\<close>, \<open>phi_bar\<close> and \<open>phi_bar_d1\<close>
  returns exactly 0, and \<open>inverse_lambda_plus\<close> returns 0.
\<close>

theorem BcMesonLCDAs_unimplemented_zero:
  "BcMesonLCDAs_g_plus imp omega = 0 \<and>
   BcMesonLCDAs_g_plus_d1 imp omega = 0 \<and>
   BcMesonLCDAs_g_plus_d2 imp omega = 0 \<and>
   BcMesonLCDAs_g_minusWW imp omega = 0 \<and>
   BcMesonLCDAs_g_minusWW_d1 imp omega = 0 \<and>
   BcMesonLCDAs_g_minusWW_d2 imp omega = 0 \<and>
   BcMesonLCDAs_g_bar imp omega = 0 \<and>
   BcMesonLCDAs_g_bar_d1 imp omega = 0 \<and>
   BcMesonLCDAs_g_bar_d2 imp omega = 0 \<and>
   BcMesonLCDAs_g_bar_d3 imp omega = 0 \<and>
   BcMesonLCDAs_phi_3 imp omega_1 omega_2 = 0 \<and>
   BcMesonLCDAs_phi_4 imp omega_1 omega_2 = 0 \<and>
   BcMesonLCDAs_phi_bar_3 imp omega_1 omega_2 = 0 \<and>
   BcMesonLCDAs_phi_bar_4 imp omega_1 omega_2 = 0 \<and>
   BcMesonLCDAs_phi_bar2_3 imp omega_1 omega_2 = 0 \<and>
   BcMesonLCDAs_phi_bar2_4 imp omega_1 omega_2 = 0 \<and>
   BcMesonLCDAs_phi_bar_bar_3 imp omega_1 omega_2 = 0 \<and>
   BcMesonLCDAs_phi_bar_bar_4 imp omega_1 omega_2 = 0 \<and>
   BcMesonLCDAs_psi_bar_4 imp omega_1 omega_2 = 0 \<and>
   BcMesonLCDAs_psi_bar_bar_4 imp omega_1 omega_2 = 0 \<and>
   BcMesonLCDAs_chi_bar_4 imp omega_1 omega_2 = 0 \<and>
   BcMesonLCDAs_chi_bar_bar_4 imp omega_1 omega_2 = 0 \<and>
   BcMesonLCDAs_psi_A imp omega xi = 0 \<and>
   BcMesonLCDAs_psi_V imp omega xi = 0 \<and>
   BcMesonLCDAs_X_A imp omega xi = 0 \<and>
   BcMesonLCDAs_Y_A imp omega xi = 0 \<and>
   BcMesonLCDAs_Xbar_A imp omega xi = 0 \<and>
   BcMesonLCDAs_Ybar_A imp omega xi = 0 \<and>
   BcMesonLCDAs_inverse_lambda_plus imp = 0"
  unfolding BcMesonLCDAs_defs Bc_imp_defs
  by (simp only: simp_thms)

section \<open>The command line of eos-scan-mc (eos-scan-mc.cc)\<close>

text \<open>
  \<open>CommandLine::parse\<close> walks \<open>argv\<close> with an iterator \<open>a\<close> and reads the operands of a
  flag with \<open>*(++a)\<close>. The model passes the arguments that follow the current one as a list;
  every \<open>throw\<close> is an \<open>Inl\<close> result. Output written to \<open>std::cout\<close> and to the log is
  not modelled.
\<close>

datatype error =
  DoUsage string
  | Exception string
  | NullArgument
  | Abort

text \<open>
  \<open>DoUsage\<close> is the class of the source. \<open>Exception\<close> stands for an \<open>eos::Exception\<close>
  thrown inside a library call. \<open>NullArgument\<close> is a read \<open>*(++a)\<close> at or behind
  \<open>argv[argc]\<close>, which the source does not guard (a null pointer handed to the
  constructor of \<open>std::string\<close>). \<open>Abort\<close> is the call of \<open>abort()\<close>.
\<close>

datatype LogLevel = ll_informational | ll_debug

text \<open>
  The numbers that \<open>destringify\<close> reads from the command line are taken to be finite, and
  where \<open>parse\<close> only stores or compares them they are modelled by \<^typ>\<open>real\<close>. The one place where \<open>parse\<close>
  computes with doubles is the range of a gaussian prior; there the result of an operation
  is rounded and may overflow, so a computed double is a value of the type \<open>double\<close>: a
  number, an infinity or not-a-number. The sign of zero is not distinguished.
  \<open>double_less\<close> is \<open>operator<\<close> on doubles: false whenever an operand is not-a-number.
  \<open>std_max\<close> and \<open>std_min\<close> are \<open>std::max\<close> and \<open>std::min\<close>, which return their first
  argument unless \<open>a < b\<close> (for \<open>max\<close>) or \<open>b < a\<close> (for \<open>min\<close>).
\<close>

datatype double = Num real | PosInf | NegInf | NaN

fun double_less :: "double \<Rightarrow> double \<Rightarrow> bool" where
  "double_less NaN y = False"
| "double_less x NaN = False"
| "double_less (Num a) (Num b) = (a < b)"
| "double_less (Num a) PosInf = True"
| "double_less (Num a) NegInf = False"
| "double_less NegInf NegInf = False"
| "double_less NegInf y = True"
| "double_less PosInf y = False"

definition std_max :: "double \<Rightarrow> double \<Rightarrow> double" where
  "std_max a b = (if double_less a b then b else a)"

definition std_min :: "double \<Rightarrow> double \<Rightarrow> double" where
  "std_min a b = (if double_less b a then b else a)"

datatype LogPrior =
  Flat string double double
  | Gauss string double double real real real

text \<open>
  \<open>Flat name range_min range_max\<close> and \<open>Gauss name range_min range_max lower central upper\<close>
  record the arguments handed to \<open>LogPrior::Flat\<close> and \<open>LogPrior::Gauss\<close>.
\<close>

fun prior_parameter :: "LogPrior \<Rightarrow> string" where
  "prior_parameter (Flat name _ _) = name"
| "prior_parameter (Gauss name _ _ _ _ _) = name"

fun prior_range :: "LogPrior \<Rightarrow> double \<times> double" where
  "prior_range (Flat _ lo hi) = (lo, hi)"
| "prior_range (Gauss _ lo hi _ _ _) = (lo, hi)"

record ParameterData =
  parameter :: string
  data_min :: double
  data_max :: double
  prior :: string

record ObservableInput =
  observable :: string
  input_kinematics :: "(string \<times> real) list"
  input_min :: real
  input_central :: real
  input_max :: real

datatype LikelihoodEntry =
  ConstraintEntry string "(string \<times> string) list"
  | ObservableEntry string real real real
  | ObservablePriorEntry string real real real

record MarkovChainSampler_Config =
  number_of_chains :: "32 word"
  need_prerun :: bool
  chunk_size :: "32 word"
  chunks :: "32 word"
  parallelize :: bool
  use_strict_rvalue_definition :: bool
  output_file :: string
  prerun_iterations_max :: "32 word"
  prerun_iterations_min :: "32 word"
  prerun_iterations_update :: "32 word"
  store_prerun :: bool
  need_main_run :: bool
  proposal :: string
  student_t_degrees_of_freedom :: real
  seed :: "64 word"

record PopulationMonteCarloSampler_Config =
  patch_length :: real
  skip_initial :: real
  target_ncomponents :: "32 word"
  config_pmc_output_file :: string
  config_pmc_parallelize :: bool
  adjust_sample_size :: "32 word"
  crop_highest_weights :: "32 word"
  degrees_of_freedom :: "64 word"
  ignore_groups :: "32 word list"
  group_by_r_value :: real
  r_value_no_nuisance :: "32 word"
  final_samples :: "32 word"
  ignore_eff_sample_size :: "32 word"
  max_updates :: "32 word"
  maximum_relative_std_deviation :: real
  minimum_steps :: "32 word"
  samples_per_component :: "32 word"
  config_pmc_seed :: "64 word"

text \<open>
  The two configuration structs are declared in headers that are not among the sources;
  the records hold the members that \<open>eos-scan-mc.cc\<close> assigns, each with the type of the
  value assigned to it (\<open>unsigned\<close> is \<^typ>\<open>32 word\<close>, \<open>long\<close> and \<open>unsigned long\<close> are
  \<^typ>\<open>64 word\<close>). Members of the second struct whose names repeat those of the first
  carry the prefix \<open>config_pmc_\<close>.
\<close>

record CommandLine =
  parameters :: "(string \<times> real) list"
  global_options :: "(string \<times> string) list"
  likelihood :: "LikelihoodEntry list"
  log_posterior :: "(LogPrior \<times> bool) list"
  mcmc_config :: MarkovChainSampler_Config
  config_pmc :: PopulationMonteCarloSampler_Config
  scan_parameters :: "ParameterData list"
  nuisance_parameters :: "ParameterData list"
  inputs :: "ObservableInput list"
  constraints :: "string list"
  creator :: string
  scale_reduction :: real
  pmc_initialization_file :: string
  pmc_sample_file :: string
  pmc_calculate_posterior :: bool
  pmc_calculate_posterior_min :: "32 word"
  pmc_calculate_posterior_max :: "32 word"
  pmc_draw_samples :: bool
  pmc_final :: bool
  pmc_update :: bool
  optimize :: bool
  starting_point :: "real list"
  goodness_of_fit :: bool
  best_fit_point :: "real list"
  use_pmc :: bool
  kinematics :: "(string \<times> real) list"
  log_level :: LogLevel
  time_calls :: nat

text \<open>
  The record holds the data members of the class that \<open>parse\<close> and \<open>main\<close> use;
  \<open>prerun_inputs\<close> is never assigned and is left out. \<open>parameters\<close> holds the values
  assigned by \<open>--fix\<close>, \<open>log_posterior\<close> the priors added so far with their role,
  \<open>constraints\<close> the names of the constraints. The last three fields are not members:
  \<open>kinematics\<close> is the local variable of \<open>parse\<close>, \<open>log_level\<close> the level of the \<open>Log\<close>
  singleton, and \<open>time_calls\<close> counts the calls of \<open>::time(0)\<close>.
\<close>

record externals =
  enable_pmc :: bool
  destringify_double :: "string \<Rightarrow> real"
  destringify_unsigned :: "string \<Rightarrow> 32 word"
  destringify_long :: "string \<Rightarrow> 64 word"
  destringify_unsigned_long :: "string \<Rightarrow> 64 word"
  VerifiedRange :: "real \<Rightarrow> real \<Rightarrow> real \<Rightarrow> error + real"
  double_plus :: "double \<Rightarrow> double \<Rightarrow> double"
  double_minus :: "double \<Rightarrow> double \<Rightarrow> double"
  double_times :: "double \<Rightarrow> double \<Rightarrow> double"
  log_prior_throws :: "LogPrior \<Rightarrow> string option"
  parameter_known :: "string \<Rightarrow> bool"
  constraint_known :: "string \<Rightarrow> bool"
  observable_known :: "string \<Rightarrow> bool"
  time :: "nat \<Rightarrow> 64 word"

text \<open>
  What \<open>parse\<close> takes from outside \<open>eos-scan-mc.cc\<close>: the preprocessor flag
  \<open>EOS_ENABLE_PMC\<close>; the instances of \<open>destringify\<close>; the constructor of
  \<open>VerifiedRange<double>\<close> followed by the conversion back to \<open>double\<close> (\<open>Inl\<close> when the
  constructor throws); the addition, subtraction and multiplication of doubles, as the
  machine performs them (rounded, with overflow to an infinity), about which nothing is
  assumed; whether \<open>LogPrior::Flat\<close> or \<open>LogPrior::Gauss\<close> throws on given
  arguments; whether \<open>Parameters::operator[]\<close> knows a name (it throws otherwise), whether
  \<open>Constraint::make\<close> knows a name (it throws otherwise) and whether \<open>Observable::make\<close>
  knows a name (it returns a null pointer otherwise); and the clock, as a function of the
  number of earlier calls. The remaining library calls of \<open>parse\<close> (\<open>likelihood.add\<close>,
  \<open>Kinematics::declare\<close> and \<open>set\<close>, \<open>Options::set\<close>) are taken to return normally.
\<close>

definition DBL_MAX :: real where
  "DBL_MAX = 2 ^ 1024 - 2 ^ 971"

definition quoted :: "string \<Rightarrow> string" where
  "quoted name = CHR 0x27 # name @ [CHR 0x27]"

definition next_arg :: "string list \<Rightarrow> error + (string \<times> string list)" where
  "next_arg rest = (case rest of [] \<Rightarrow> Inl NullArgument | x # rest' \<Rightarrow> Inr (x, rest'))"

definition and_then :: "error + 'a \<Rightarrow> ('a \<Rightarrow> error + 'b) \<Rightarrow> error + 'b" where
  "and_then r f = (case r of Inl e \<Rightarrow> Inl e | Inr x \<Rightarrow> f x)"

text \<open>
  Modelled from the spec: \<open>LogPosterior::add\<close> is defined outside the sources. The spec
  lists "duplicate parameter prior assignment" as a configuration error, and the message
  thrown by \<open>parse\<close> when \<open>add\<close> returns false asks whether the name appears twice in the
  list of parameters: \<open>add\<close> returns false, and adds nothing, when the parameter of the
  prior already has a prior; otherwise it appends the prior with its role.
\<close>

definition log_posterior_add ::
  "(LogPrior \<times> bool) list \<Rightarrow> LogPrior \<Rightarrow> bool \<Rightarrow> bool \<times> (LogPrior \<times> bool) list" where
  "log_posterior_add lp p nuisance =
     (if prior_parameter p \<in> set (map (prior_parameter \<circ> fst) lp) then (False, lp)
      else (True, lp @ [(p, nuisance)]))"

subsection \<open>The block for \<open>--scan\<close> and \<open>--nuisance\<close>\<close>

text \<open>
  Lines 191 to 224: the hard bounds and the number of sigmas, in the three formats
  a) \<open>PAR N_SIGMAS --prior\<close>, b) \<open>PAR MIN MAX --prior\<close>, c) \<open>PAR MIN MAX N_SIGMAS --prior\<close>.
  The result is \<open>(min, max, n_sigmas, keyword, rest)\<close>.
\<close>

definition read_bounds ::
  "externals \<Rightarrow> real \<Rightarrow> string \<Rightarrow> string list \<Rightarrow>
   error + (real \<times> real \<times> real \<times> string \<times> string list)" where
  "read_bounds env number keyword rest =
     and_then (VerifiedRange env 0 10 0) (\<lambda>n_sigmas0.
      if keyword = ''--prior'' then
        and_then (VerifiedRange env 0 10 number) (\<lambda>n_sigmas.
          if n_sigmas = 0 then Inl (DoUsage ''number of sigmas: number expected'')
          else Inr (- DBL_MAX, DBL_MAX, n_sigmas, keyword, rest))
      else
        and_then (next_arg rest) (\<lambda>(keyword', rest').
          if keyword' \<noteq> ''--prior'' then
            and_then (VerifiedRange env 0 10 (destringify_double env keyword')) (\<lambda>n_sigmas.
              if n_sigmas = 0 then Inl (DoUsage ''number of sigmas: number expected'')
              else and_then (next_arg rest') (\<lambda>(keyword'', rest'').
                Inr (number, destringify_double env keyword, n_sigmas, keyword'', rest'')))
          else Inr (number, destringify_double env keyword, n_sigmas0, keyword', rest')))"

text \<open>
  Lines 229 to 261: the prior and the range that is registered. The result is
  \<open>(prior, range_min, range_max, rest)\<close>.
\<close>

definition read_prior ::
  "externals \<Rightarrow> string \<Rightarrow> string \<Rightarrow> real \<Rightarrow> real \<Rightarrow> real \<Rightarrow> string list \<Rightarrow>
   error + (LogPrior \<times> double \<times> double \<times> string list)" where
  "read_prior env name prior_type range_min range_max n_sigmas rest =
     (if prior_type = ''gaussian'' then
        and_then (next_arg rest) (\<lambda>(lower_s, rest1).
        and_then (next_arg rest1) (\<lambda>(central_s, rest2).
        and_then (next_arg rest2) (\<lambda>(upper_s, rest3).
          let lower = destringify_double env lower_s;
              central = destringify_double env central_s;
              upper = destringify_double env upper_s;
              range_min' = (if n_sigmas > 0
                 then std_max (Num range_min)
                   (double_minus env (Num central)
                     (double_times env (Num n_sigmas)
                       (double_minus env (Num central) (Num lower))))
                 else Num range_min);
              range_max' = (if n_sigmas > 0
                 then std_min (Num range_max)
                   (double_plus env (Num central)
                     (double_times env (Num n_sigmas)
                       (double_minus env (Num upper) (Num central))))
                 else Num range_max);
              p = Gauss name range_min' range_max' lower central upper
          in case log_prior_throws env p of
               Some what \<Rightarrow> Inl (Exception what)
             | None \<Rightarrow> Inr (p, range_min', range_max', rest3))))
      else if prior_type = ''flat'' then
        if n_sigmas > 0 then Inl (DoUsage ''Can't specify number of sigmas for flat prior'')
        else
          let p = Flat name (Num range_min) (Num range_max)
          in case log_prior_throws env p of
               Some what \<Rightarrow> Inl (Exception what)
             | None \<Rightarrow> Inr (p, Num range_min, Num range_max, rest)
      else Inl (DoUsage (''Unknown prior distribution: '' @ prior_type)))"

definition assignment_error :: "string \<Rightarrow> string \<Rightarrow> string" where
  "assignment_error prior_type name =
     ''Error in assigning '' @ prior_type @ '' prior distribution to '' @ quoted name @
     ''. Perhaps '' @ quoted name @ '' appears twice in the list of parameters?''"

definition parse_scan ::
  "externals \<Rightarrow> string \<Rightarrow> string list \<Rightarrow> CommandLine \<Rightarrow> error + (string list \<times> CommandLine)" where
  "parse_scan env argument rest s =
     and_then (next_arg rest) (\<lambda>(name, rest1).
     and_then (next_arg rest1) (\<lambda>(number_s, rest2).
     and_then (next_arg rest2) (\<lambda>(keyword, rest3).
     and_then (read_bounds env (destringify_double env number_s) keyword rest3)
       (\<lambda>(min_v, max_v, n_sigmas, keyword', rest4).
     if keyword' \<noteq> ''--prior'' then
       Inl (DoUsage (''Missing correct prior specification for '' @ quoted name @ ''!''))
     else
     and_then (next_arg rest4) (\<lambda>(prior_type, rest5).
     and_then (read_prior env name prior_type min_v max_v n_sigmas rest5)
       (\<lambda>(p, range_min, range_max, rest6).
     let nuisance = (argument = ''--nuisance'') in
     if \<not> parameter_known env name then Inl (Exception ''UnknownParameterError'')
     else
     let d = \<lparr>parameter = name, data_min = range_min, data_max = range_max,
                prior = prior_type\<rparr>;
         s1 = (if nuisance then s\<lparr>nuisance_parameters := nuisance_parameters s @ [d]\<rparr>
               else s\<lparr>scan_parameters := scan_parameters s @ [d]\<rparr>)
     in case log_posterior_add (log_posterior s1) p nuisance of
          (ok, lp) \<Rightarrow>
            if \<not> ok then Inl (DoUsage (assignment_error prior_type name))
            else Inr (rest6, s1\<lparr>log_posterior := lp\<rparr>)))))))"

subsection \<open>The optional point of \<open>--optimize\<close> and \<open>--goodness-of-fit\<close>\<close>

text \<open>
  The \<open>do ... while (true)\<close> loop reads words up to the closing brace. It leaves the list
  of arguments only through a read behind its end.
\<close>

fun read_point :: "externals \<Rightarrow> string list \<Rightarrow> real list \<Rightarrow> error + (string list \<times> real list)" where
  "read_point env [] point = Inl NullArgument"
| "read_point env (word # rest) point =
     (if word = ''}'' then Inr (rest, point)
      else read_point env rest (point @ [destringify_double env word]))"

text \<open>
  After the flag, the next word is read; when it is not an opening brace the iterator steps
  back and the word is the next argument of the loop.
\<close>

definition read_optional_point ::
  "externals \<Rightarrow> string list \<Rightarrow> real list \<Rightarrow> error + (string list \<times> real list)" where
  "read_optional_point env rest point =
     and_then (next_arg rest) (\<lambda>(lbrace, rest1).
       if lbrace \<noteq> ''{'' then Inr (rest, point) else read_point env rest1 point)"

subsection \<open>Observables\<close>

text \<open>
  The blocks for \<open>--observable\<close> and \<open>--observable-prior\<close> differ in the call of
  \<open>likelihood.add\<close> only (the second passes a fifth argument 0).
\<close>

definition parse_observable ::
  "externals \<Rightarrow> bool \<Rightarrow> string list \<Rightarrow> CommandLine \<Rightarrow> error + (string list \<times> CommandLine)" where
  "parse_observable env as_prior rest s =
     and_then (next_arg rest) (\<lambda>(observable_name, rest1).
       if \<not> observable_known env observable_name then
         Inl (DoUsage (''Unknown observable '' @ quoted observable_name))
       else
         and_then (next_arg rest1) (\<lambda>(min_s, rest2).
         and_then (next_arg rest2) (\<lambda>(central_s, rest3).
         and_then (next_arg rest3) (\<lambda>(max_s, rest4).
           let input = \<lparr>observable = observable_name, input_kinematics = kinematics s,
                 input_min = destringify_double env min_s,
                 input_central = destringify_double env central_s,
                 input_max = destringify_double env max_s\<rparr>;
               entry = (if as_prior
                 then ObservablePriorEntry observable_name (input_min input)
                        (input_central input) (input_max input)
                 else ObservableEntry observable_name (input_min input)
                        (input_central input) (input_max input))
           in Inr (rest4, s\<lparr>likelihood := likelihood s @ [entry],
                             inputs := inputs s @ [input],
                             kinematics := []\<rparr>)))))"

subsection \<open>One iteration of the loop over the arguments\<close>

text \<open>
  \<open>step env argument rest s\<close> is the body of the \<open>for\<close> loop at the argument
  \<open>argument\<close>, with \<open>rest\<close> the arguments behind it. It returns the arguments that are left
  once the iterator has moved past the operands, and the new state. The blocks inside
  \<open>#if EOS_ENABLE_PMC\<close> exist when \<open>enable_pmc env\<close> holds; so do the assignments to
  \<open>config_pmc\<close> in the blocks for \<open>--output\<close>, \<open>--parallel\<close> and \<open>--seed\<close>.
\<close>

definition step ::
  "externals \<Rightarrow> string \<Rightarrow> string list \<Rightarrow> CommandLine \<Rightarrow> error + (string list \<times> CommandLine)" where
  "step env argument rest s =
    (if argument = ''--scan'' \<or> argument = ''--nuisance'' then parse_scan env argument rest s
     else if argument = ''--chains'' then
       and_then (next_arg rest) (\<lambda>(v, rest1).
         Inr (rest1, s\<lparr>mcmc_config := (mcmc_config s)
           \<lparr>number_of_chains := destringify_unsigned env v\<rparr>\<rparr>))
     else if argument = ''--chunk-size'' then
       and_then (next_arg rest) (\<lambda>(v, rest1).
         Inr (rest1, s\<lparr>mcmc_config := (mcmc_config s)
           \<lparr>chunk_size := destringify_unsigned env v\<rparr>\<rparr>))
     else if argument = ''--chunks'' then
       and_then (next_arg rest) (\<lambda>(v, rest1).
         Inr (rest1, s\<lparr>mcmc_config := (mcmc_config s)
           \<lparr>chunks := destringify_unsigned env v\<rparr>\<rparr>))
     else if argument = ''--constraint'' then
       and_then (next_arg rest) (\<lambda>(constraint_name, rest1).
         if \<not> constraint_known env constraint_name then
           Inl (Exception ''UnknownConstraintError'')
         else
           Inr (rest1, s\<lparr>likelihood := likelihood s @
                  [ConstraintEntry constraint_name (global_options s)],
                constraints := constraints s @ [constraint_name]\<rparr>))
     else if argument = ''--debug'' then Inr (rest, s\<lparr>log_level := ll_debug\<rparr>)
     else if argument = ''--fix'' then
       and_then (next_arg rest) (\<lambda>(par_name, rest1).
       and_then (next_arg rest1) (\<lambda>(v, rest2).
         if \<not> parameter_known env par_name then Inl (Exception ''UnknownParameterError'')
         else Inr (rest2, s\<lparr>parameters := parameters s @
                [(par_name, destringify_double env v)]\<rparr>)))
     else if argument = ''--kinematics'' then
       and_then (next_arg rest) (\<lambda>(name, rest1).
       and_then (next_arg rest1) (\<lambda>(v, rest2).
         Inr (rest2, s\<lparr>kinematics := kinematics s @ [(name, destringify_double env v)]\<rparr>)))
     else if argument = ''--global-option'' then
       and_then (next_arg rest) (\<lambda>(name, rest1).
       and_then (next_arg rest1) (\<lambda>(v, rest2).
         Inr (rest2, s\<lparr>global_options := global_options s @ [(name, v)]\<rparr>)))
     else if argument = ''--goodness-of-fit'' then
       and_then (read_optional_point env rest (best_fit_point s)) (\<lambda>(rest1, point).
         Inr (rest1, s\<lparr>goodness_of_fit := True, best_fit_point := point\<rparr>))
     else if enable_pmc env \<and> argument = ''--hc-patch-length'' then
       and_then (next_arg rest) (\<lambda>(v, rest1).
         Inr (rest1, s\<lparr>config_pmc := (config_pmc s)
           \<lparr>patch_length := destringify_double env v\<rparr>\<rparr>))
     else if enable_pmc env \<and> argument = ''--hc-skip-initial'' then
       and_then (next_arg rest) (\<lambda>(v, rest1).
         Inr (rest1, s\<lparr>config_pmc := (config_pmc s)
           \<lparr>skip_initial := destringify_double env v\<rparr>\<rparr>))
     else if enable_pmc env \<and> argument = ''--hc-target-ncomponents'' then
       and_then (next_arg rest) (\<lambda>(v, rest1).
         Inr (rest1, s\<lparr>config_pmc := (config_pmc s)
           \<lparr>target_ncomponents := destringify_unsigned env v\<rparr>\<rparr>))
     else if argument = ''--no-prerun'' then
       Inr (rest, s\<lparr>mcmc_config := (mcmc_config s)\<lparr>need_prerun := False\<rparr>\<rparr>)
     else if argument = ''--observable'' then parse_observable env False rest s
     else if argument = ''--observable-prior'' then parse_observable env True rest s
     else if argument = ''--optimize'' then
       and_then (read_optional_point env rest (starting_point s)) (\<lambda>(rest1, point).
         Inr (rest1, s\<lparr>optimize := True, starting_point := point\<rparr>))
     else if argument = ''--output'' then
       and_then (next_arg rest) (\<lambda>(filename, rest1).
         Inr (rest1, s\<lparr>mcmc_config := (mcmc_config s)\<lparr>output_file := filename\<rparr>,
           config_pmc := (if enable_pmc env
             then (config_pmc s)\<lparr>config_pmc_output_file := filename\<rparr>
             else config_pmc s)\<rparr>))
     else if argument = ''--parallel'' then
       Inr (rest, s\<lparr>mcmc_config := (mcmc_config s)\<lparr>parallelize := False\<rparr>,
         config_pmc := (if enable_pmc env
           then (config_pmc s)\<lparr>config_pmc_parallelize := False\<rparr>
           else config_pmc s)\<rparr>)
     else if argument = ''--use-pmc'' then Inr (rest, s\<lparr>use_pmc := True\<rparr>)
     else if enable_pmc env \<and> argument = ''--pmc-adjust-sample-size'' then
       and_then (next_arg rest) (\<lambda>(v, rest1).
         Inr (rest1, s\<lparr>config_pmc := (config_pmc s)
           \<lparr>adjust_sample_size := destringify_unsigned env v\<rparr>\<rparr>))
     else if enable_pmc env \<and> argument = ''--pmc-crop-highest-weights'' then
       and_then (next_arg rest) (\<lambda>(v, rest1).
         Inr (rest1, s\<lparr>config_pmc := (config_pmc s)
           \<lparr>crop_highest_weights := destringify_unsigned env v\<rparr>\<rparr>))
     else if enable_pmc env \<and> argument = ''--pmc-dof'' then
       and_then (next_arg rest) (\<lambda>(v, rest1).
         Inr (rest1, s\<lparr>config_pmc := (config_pmc s)
           \<lparr>degrees_of_freedom := destringify_long env v\<rparr>\<rparr>))
     else if enable_pmc env \<and> argument = ''--pmc-calculate-posterior'' then
       and_then (next_arg rest) (\<lambda>(file, rest1).
       and_then (next_arg rest1) (\<lambda>(min_s, rest2).
       and_then (next_arg rest2) (\<lambda>(max_s, rest3).
         Inr (rest3, s\<lparr>pmc_calculate_posterior := True,
           pmc_sample_file := file,
           pmc_calculate_posterior_min := destringify_unsigned env min_s,
           pmc_calculate_posterior_max := destringify_unsigned env max_s,
           pmc_initialization_file := file\<rparr>))))
     else if enable_pmc env \<and> argument = ''--pmc-draw-samples'' then
       Inr (rest, s\<lparr>pmc_draw_samples := True\<rparr>)
     else if enable_pmc env \<and> argument = ''--pmc-final'' then
       and_then (next_arg rest) (\<lambda>(v, rest1).
         Inr (rest1, s\<lparr>pmc_final := (destringify_unsigned env v \<noteq> 0)\<rparr>))
     else if enable_pmc env \<and> argument = ''--pmc-ignore-group'' then
       and_then (next_arg rest) (\<lambda>(v, rest1).
         Inr (rest1, s\<lparr>config_pmc := (config_pmc s)
           \<lparr>ignore_groups := ignore_groups (config_pmc s) @ [destringify_unsigned env v]\<rparr>\<rparr>))
     else if enable_pmc env \<and> argument = ''--pmc-initialize-from-file'' then
       and_then (next_arg rest) (\<lambda>(file, rest1).
         Inr (rest1, s\<lparr>pmc_initialization_file := file\<rparr>))
     else if enable_pmc env \<and> argument = ''--pmc-group-by-r-value'' then
       and_then (next_arg rest) (\<lambda>(v, rest1).
         Inr (rest1, s\<lparr>config_pmc := (config_pmc s)
           \<lparr>group_by_r_value := destringify_double env v\<rparr>\<rparr>))
     else if enable_pmc env \<and> argument = ''--pmc-r-value-no-nuisance'' then
       and_then (next_arg rest) (\<lambda>(v, rest1).
         Inr (rest1, s\<lparr>config_pmc := (config_pmc s)
           \<lparr>r_value_no_nuisance := destringify_unsigned env v\<rparr>\<rparr>))
     else if enable_pmc env \<and> argument = ''--pmc-final-samples'' then
       and_then (next_arg rest) (\<lambda>(v, rest1).
         Inr (rest1, s\<lparr>config_pmc := (config_pmc s)
           \<lparr>final_samples := destringify_unsigned env v\<rparr>\<rparr>))
     else if enable_pmc env \<and> argument = ''--pmc-ignore-ess'' then
       and_then (next_arg rest) (\<lambda>(v, rest1).
         Inr (rest1, s\<lparr>config_pmc := (config_pmc s)
           \<lparr>ignore_eff_sample_size := destringify_unsigned env v\<rparr>\<rparr>))
     else if enable_pmc env \<and> argument = ''--pmc-max-updates'' then
       and_then (next_arg rest) (\<lambda>(v, rest1).
         Inr (rest1, s\<lparr>config_pmc := (config_pmc s)
           \<lparr>max_updates := destringify_unsigned env v\<rparr>\<rparr>))
     else if enable_pmc env \<and> argument = ''--pmc-relative-std-deviation-over-last-steps'' then
       and_then (next_arg rest) (\<lambda>(v, rest1).
       and_then (next_arg rest1) (\<lambda>(w, rest2).
         Inr (rest2, s\<lparr>config_pmc := (config_pmc s)
           \<lparr>maximum_relative_std_deviation := destringify_double env v,
            minimum_steps := destringify_unsigned env w\<rparr>\<rparr>)))
     else if enable_pmc env \<and> argument = ''--pmc-samples-per-component'' then
       and_then (next_arg rest) (\<lambda>(v, rest1).
         Inr (rest1, s\<lparr>config_pmc := (config_pmc s)
           \<lparr>samples_per_component := destringify_unsigned env v\<rparr>\<rparr>))
     else if enable_pmc env \<and> argument = ''--pmc-update'' then
       and_then (next_arg rest) (\<lambda>(file, rest1).
         Inr (rest1, s\<lparr>pmc_update := True, pmc_initialization_file := file\<rparr>))
     else if argument = ''--prerun-chains-per-partition'' then
       and_then (next_arg rest) (\<lambda>(v, rest1).
         Inr (rest1, s\<lparr>mcmc_config := (mcmc_config s)
           \<lparr>number_of_chains := destringify_unsigned env v\<rparr>\<rparr>))
     else if argument = ''--prerun-max'' then
       and_then (next_arg rest) (\<lambda>(v, rest1).
         Inr (rest1, s\<lparr>mcmc_config := (mcmc_config s)
           \<lparr>prerun_iterations_max := destringify_unsigned env v\<rparr>\<rparr>))
     else if argument = ''--prerun-min'' then
       and_then (next_arg rest) (\<lambda>(v, rest1).
         Inr (rest1, s\<lparr>mcmc_config := (mcmc_config s)
           \<lparr>prerun_iterations_min := destringify_unsigned env v\<rparr>\<rparr>))
     else if argument = ''--prerun-only'' then
       Inr (rest, s\<lparr>mcmc_config := (mcmc_config s)
         \<lparr>need_prerun := True, store_prerun := True, need_main_run := False\<rparr>\<rparr>)
     else if argument = ''--prerun-update'' then
       and_then (next_arg rest) (\<lambda>(v, rest1).
         Inr (rest1, s\<lparr>mcmc_config := (mcmc_config s)
           \<lparr>prerun_iterations_update := destringify_unsigned env v\<rparr>\<rparr>))
     else if argument = ''--print-args'' then Inl Abort
     else if argument = ''--proposal'' then
       and_then (next_arg rest) (\<lambda>(v, rest1).
         if v = ''MultivariateStudentT'' then
           and_then (next_arg rest1) (\<lambda>(dof_s, rest2).
             let dof = destringify_double env dof_s in
             if dof \<le> 0 then
               Inl (DoUsage
                 ''No (or non-positive) degree of freedom for MultivariateStudentT specified'')
             else
               Inr (rest2, s\<lparr>mcmc_config := (mcmc_config s)
                 \<lparr>proposal := v, student_t_degrees_of_freedom := dof\<rparr>\<rparr>))
         else Inr (rest1, s\<lparr>mcmc_config := (mcmc_config s)\<lparr>proposal := v\<rparr>\<rparr>))
     else if argument = ''--seed'' then
       and_then (next_arg rest) (\<lambda>(v, rest1).
         if v = ''time'' then
           if enable_pmc env then
             Inr (rest1, s\<lparr>mcmc_config := (mcmc_config s)\<lparr>seed := time env (time_calls s)\<rparr>,
               config_pmc := (config_pmc s)
                 \<lparr>config_pmc_seed := time env (Suc (time_calls s))\<rparr>,
               time_calls := Suc (Suc (time_calls s))\<rparr>)
           else
             Inr (rest1, s\<lparr>mcmc_config := (mcmc_config s)\<lparr>seed := time env (time_calls s)\<rparr>,
               time_calls := Suc (time_calls s)\<rparr>)
         else
           Inr (rest1, s\<lparr>mcmc_config := (mcmc_config s)
               \<lparr>seed := destringify_unsigned_long env v\<rparr>,
             config_pmc := (if enable_pmc env
               then (config_pmc s)\<lparr>config_pmc_seed := destringify_unsigned_long env v\<rparr>
               else config_pmc s)\<rparr>))
     else if argument = ''--scale-reduction'' then
       and_then (next_arg rest) (\<lambda>(v, rest1).
         Inr (rest1, s\<lparr>scale_reduction := destringify_double env v\<rparr>))
     else if argument = ''--store-prerun'' then
       Inr (rest, s\<lparr>mcmc_config := (mcmc_config s)\<lparr>store_prerun := True\<rparr>\<rparr>)
     else Inl (DoUsage (''Unknown command line argument: '' @ argument)))"

subsection \<open>The loop, \<open>parse\<close> and \<open>main\<close>\<close>

lemma next_arg_Inr: "next_arg rest = Inr (x, rest') \<longleftrightarrow> rest = x # rest'"
  by (cases rest) (auto simp: next_arg_def)

lemma and_then_Inr: "and_then r f = Inr y \<longleftrightarrow> (\<exists>x. r = Inr x \<and> f x = Inr y)"
  by (cases r) (auto simp: and_then_def)

lemma read_point_length:
  "read_point env rest point = Inr (rest', point') \<Longrightarrow> length rest' \<le> length rest"
  by (induction env rest point rule: read_point.induct) (auto split: if_splits)

lemma read_optional_point_length:
  "read_optional_point env rest point = Inr (rest', point') \<Longrightarrow> length rest' \<le> length rest"
  by (auto simp: read_optional_point_def and_then_Inr next_arg_Inr
      split: if_splits dest: read_point_length)

lemma read_bounds_length:
  "read_bounds env number keyword rest = Inr (mn, mx, n, k, rest') \<Longrightarrow>
   length rest' \<le> length rest"
  by (auto simp: read_bounds_def and_then_Inr next_arg_Inr split: if_splits)

lemma read_prior_length:
  "read_prior env name prior_type mn mx n rest = Inr (p, lo, hi, rest') \<Longrightarrow>
   length rest' \<le> length rest"
  by (auto simp: read_prior_def and_then_Inr next_arg_Inr Let_def
      split: if_splits option.splits)

lemma parse_scan_length:
  "parse_scan env argument rest s = Inr (rest', s') \<Longrightarrow> length rest' \<le> length rest"
  by (auto simp: parse_scan_def and_then_Inr next_arg_Inr Let_def
      split: if_splits prod.splits dest!: read_bounds_length read_prior_length)

lemma parse_observable_length:
  "parse_observable env as_prior rest s = Inr (rest', s') \<Longrightarrow> length rest' \<le> length rest"
  by (auto simp: parse_observable_def and_then_Inr next_arg_Inr Let_def split: if_splits)

lemma if_InrE:
  assumes "(if c then a else b) = Inr y"
  obtains "a = Inr y" | "b = Inr y"
  using assms by (cases c) auto

lemma with_next_length:
  assumes "and_then (next_arg rest) F = Inr (rest', s')"
    and "\<And>v rest1. F (v, rest1) = Inr (rest', s') \<Longrightarrow> length rest' \<le> length rest1"
  shows "length rest' \<le> length rest"
proof (cases rest)
  case Nil
  with assms(1) show ?thesis by (simp add: and_then_def next_arg_def)
next
  case (Cons v rest1)
  with assms(1) have "F (v, rest1) = Inr (rest', s')"
    by (simp add: and_then_def next_arg_def)
  from assms(2) [OF this] Cons show ?thesis by simp
qed

text \<open>
  No block moves the iterator backwards past the argument it started from: the loop
  terminates.
\<close>

lemma step_length:
  "step env argument rest s = Inr (rest', s') \<Longrightarrow> length rest' \<le> length rest"
  unfolding step_def
  apply (elim if_InrE)
  prefer 44
  subgoal by (erule with_next_length, simp only: prod.case, elim if_InrE; simp)
  subgoal by (erule parse_scan_length)
  apply (auto simp: and_then_Inr next_arg_Inr Let_def split: if_splits
      dest: parse_observable_length read_optional_point_length)
  done

function parse_loop :: "externals \<Rightarrow> string list \<Rightarrow> CommandLine \<Rightarrow> error + CommandLine" where
  "parse_loop env [] s = Inr s"
| "parse_loop env (argument # rest) s =
     (case step env argument rest s of
        Inl e \<Rightarrow> Inl e
      | Inr (rest', s') \<Rightarrow> parse_loop env rest' s')"
  by pat_completeness auto
termination
proof (relation "measure (\<lambda>(env, args, s). length args)")
  show "wf (measure (\<lambda>(env, args, s). length args))"
    by simp
next
  fix env argument rest s x rest' s'
  assume "step env argument rest s = Inr x" and "(rest', s') = x"
  then have "length rest' \<le> length rest"
    using step_length [of env argument rest s rest' s'] by simp
  then show "((env, rest', s'), (env, argument # rest, s))
      \<in> measure (\<lambda>(env, args, s). length args)"
    by simp
qed

text \<open>
  \<open>parse\<close>: the log level is set, the local \<open>kinematics\<close> is created empty, \<open>creator\<close>
  is the command line joined by blanks, and the loop runs over \<open>argv[1..]\<close>. An empty
  \<open>argv\<close> makes the read of \<open>argv[0]\<close> a read of the null pointer.
\<close>

definition parse_begin :: "string \<Rightarrow> string list \<Rightarrow> CommandLine \<Rightarrow> CommandLine" where
  "parse_begin prog args s =
     s\<lparr>log_level := ll_informational, kinematics := [],
       creator := foldl (\<lambda>c a. c @ '' '' @ a) prog args\<rparr>"

definition parse :: "externals \<Rightarrow> string list \<Rightarrow> CommandLine \<Rightarrow> error + CommandLine" where
  "parse env argv s =
     (case argv of
        [] \<Rightarrow> Inl NullArgument
      | prog # args \<Rightarrow> parse_loop env args (parse_begin prog args s))"

text \<open>
  The constructor. \<open>quick\<close> and \<open>pmc_default\<close> are the values of
  \<open>MarkovChainSampler::Config::Quick()\<close> and
  \<open>PopulationMonteCarloSampler::Config::Default()\<close>, which are defined outside the sources.
\<close>

definition CommandLine_init ::
  "MarkovChainSampler_Config \<Rightarrow> PopulationMonteCarloSampler_Config \<Rightarrow> CommandLine" where
  "CommandLine_init quick pmc_default =
     \<lparr>parameters = [], global_options = [], likelihood = [], log_posterior = [],
      mcmc_config = quick\<lparr>number_of_chains := 4, need_prerun := True, chunk_size := 1000,
        parallelize := False, use_strict_rvalue_definition := True\<rparr>,
      config_pmc = pmc_default,
      scan_parameters = [], nuisance_parameters = [], inputs = [], constraints = [],
      creator = [], scale_reduction = 1,
      pmc_initialization_file = [], pmc_sample_file = [],
      pmc_calculate_posterior = False,
      pmc_calculate_posterior_min = 0, pmc_calculate_posterior_max = 0,
      pmc_draw_samples = False, pmc_final = False, pmc_update = False,
      optimize = False, starting_point = [],
      goodness_of_fit = False, best_fit_point = [],
      use_pmc = False,
      kinematics = [], log_level = ll_informational, time_calls = 0\<rparr>"

datatype pmc_action = DrawSamples | CalculateWeights | UpdateOnly | RunPMC

datatype outcome =
  Usage string
  | CaughtException string
  | Undefined
  | Aborted
  | Optimization CommandLine
  | GoodnessOfFit CommandLine
  | PopulationMonteCarlo pmc_action CommandLine
  | MarkovChain "(LogPrior \<times> bool) list" MarkovChainSampler_Config

text \<open>
  What \<open>main\<close> does, as far as the file decides it. \<open>Usage what\<close>: a \<open>DoUsage\<close> was
  caught, its message and the usage text are printed and the exit code is
  \<open>EXIT_FAILURE\<close>. \<open>CaughtException\<close>: the handler for \<open>Exception\<close>. \<open>Undefined\<close>: a
  read of the null pointer. \<open>Aborted\<close>: \<open>abort()\<close>. The other four are the branches that
  hand over to the library: the optimizer, the goodness of fit at the given point, the
  population Monte Carlo sampler (with the call chosen by the flags), and
  \<open>MarkovChainSampler sampler(log_posterior.clone(), mcmc_config); sampler.run()\<close>.
  \<open>stringify\<close> is the library's conversion of a size to text.
\<close>

definition main ::
  "externals \<Rightarrow> (nat \<Rightarrow> string) \<Rightarrow> MarkovChainSampler_Config \<Rightarrow>
   PopulationMonteCarloSampler_Config \<Rightarrow> string list \<Rightarrow> outcome" where
  "main env stringify quick pmc_default argv =
     (case parse env argv (CommandLine_init quick pmc_default) of
        Inl (DoUsage what) \<Rightarrow> Usage what
      | Inl (Exception what) \<Rightarrow> CaughtException what
      | Inl NullArgument \<Rightarrow> Undefined
      | Inl Abort \<Rightarrow> Aborted
      | Inr inst \<Rightarrow>
          if inputs inst = [] \<and> constraints inst = [] then
            Usage ''Neither inputs nor constraints specified''
          else if nuisance_parameters inst = [] \<and> scan_parameters inst = [] then
            Usage ''Neither scan nor nuisance parameters defined''
          else if optimize inst then
            if starting_point inst \<noteq> [] \<and>
               length (starting_point inst) \<noteq> length (log_posterior inst) then
              Usage (''Starting point size of'' @ stringify (length (starting_point inst))
                @ '' doesn't match with analysis size of ''
                @ stringify (length (log_posterior inst)))
            else Optimization inst
          else if goodness_of_fit inst then GoodnessOfFit inst
          else if enable_pmc env \<and> use_pmc inst then
            PopulationMonteCarlo
              (if pmc_draw_samples inst then DrawSamples
               else if pmc_calculate_posterior inst then CalculateWeights
               else if pmc_update inst then UpdateOnly
               else RunPMC) inst
          else MarkovChain (log_posterior inst) (mcmc_config inst))"

section \<open>Properties of the command line\<close>

text \<open>An instance of the externals, used to run \<open>parse\<close> on concrete command lines.\<close>

definition table_double :: "string \<Rightarrow> real" where
  "table_double w =
     (if w = ''-1'' then - 1 else if w = ''0'' then 0 else if w = ''1'' then 1
      else if w = ''2'' then 2 else if w = ''3'' then 3 else if w = ''5'' then 5
      else if w = ''0.5'' then 0.5 else if w = ''3.5'' then 3.5 else 0)"

text \<open>
  The arithmetic of the instance computes exactly on numbers. On the numbers of the
  examples below, which are small binary fractions, so does the machine.
\<close>

fun exact_op :: "(real \<Rightarrow> real \<Rightarrow> real) \<Rightarrow> double \<Rightarrow> double \<Rightarrow> double" where
  "exact_op f (Num a) (Num b) = Num (f a b)"
| "exact_op f x y = NaN"

definition example_externals :: externals where
  "example_externals =
     \<lparr>enable_pmc = False,
      destringify_double = table_double,
      destringify_unsigned = (\<lambda>w. 0),
      destringify_long = (\<lambda>w. 0),
      destringify_unsigned_long = (\<lambda>w. 0),
      VerifiedRange = (\<lambda>lo hi v.
        if v < lo then Inl (Exception ''VerifiedRangeUnderflow'')
        else if hi < v then Inl (Exception ''VerifiedRangeOverflow'')
        else Inr v),
      double_plus = exact_op (+),
      double_minus = exact_op (-),
      double_times = exact_op (*),
      log_prior_throws = (\<lambda>p. None),
      parameter_known = (\<lambda>name. True),
      constraint_known = (\<lambda>name. True),
      observable_known = (\<lambda>name. True),
      time = (\<lambda>n. 0)\<rparr>"

lemma step_parallel:
  "step env ''--parallel'' rest s =
     Inr (rest, s\<lparr>mcmc_config := (mcmc_config s)\<lparr>parallelize := False\<rparr>,
       config_pmc := (if enable_pmc env
         then (config_pmc s)\<lparr>config_pmc_parallelize := False\<rparr>
         else config_pmc s)\<rparr>)"
  by (simp add: step_def)

lemma step_chains:
  "step env ''--chains'' (v # rest) s =
     Inr (rest, s\<lparr>mcmc_config := (mcmc_config s)
       \<lparr>number_of_chains := destringify_unsigned env v\<rparr>\<rparr>)"
  by (simp add: step_def and_then_def next_arg_def)

lemma step_seed:
  "v \<noteq> ''time'' \<Longrightarrow> step env ''--seed'' (v # rest) s =
     Inr (rest, s\<lparr>mcmc_config := (mcmc_config s)
         \<lparr>seed := destringify_unsigned_long env v\<rparr>,
       config_pmc := (if enable_pmc env
         then (config_pmc s)\<lparr>config_pmc_seed := destringify_unsigned_long env v\<rparr>
         else config_pmc s)\<rparr>)"
  by (simp add: step_def and_then_def next_arg_def)

lemma step_chunk_size:
  "step env ''--chunk-size'' (v # rest) s =
     Inr (rest, s\<lparr>mcmc_config := (mcmc_config s)
       \<lparr>chunk_size := destringify_unsigned env v\<rparr>\<rparr>)"
  by (simp add: step_def and_then_def next_arg_def)

lemma step_chunks:
  "step env ''--chunks'' (v # rest) s =
     Inr (rest, s\<lparr>mcmc_config := (mcmc_config s)
       \<lparr>chunks := destringify_unsigned env v\<rparr>\<rparr>)"
  by (simp add: step_def and_then_def next_arg_def)

text \<open>
  Claim C1. Each flag sets the option it names; in particular \<open>--parallel\<close> enables the
  parallel execution of the chains. The lemmas above show the flags \<open>--chains\<close>,
  \<open>--chunk-size\<close>, \<open>--chunks\<close> and \<open>--seed\<close> doing so. The block for \<open>--parallel\<close>
  assigns \<open>false\<close>, the value the constructor has already set: on the command line
  \<open>eos-scan-mc --parallel\<close> the option \<open>parallelize\<close> is false after \<open>parse\<close>, and the
  whole configuration of the sampler is the one of the command line without the flag.
\<close>

theorem parallel_flag_keeps_parallelize_false:
  "map_sum id (parallelize \<circ> mcmc_config)
     (parse env [prog, ''--parallel''] (CommandLine_init quick pmc_default)) = Inr False \<and>
   map_sum id mcmc_config
     (parse env [prog, ''--parallel''] (CommandLine_init quick pmc_default)) =
   map_sum id mcmc_config (parse env [prog] (CommandLine_init quick pmc_default))"
  by (simp add: parse_def step_parallel parse_begin_def CommandLine_init_def)

lemma next_arg_Cons: "next_arg (x # rest) = Inr (x, rest)"
  by (simp add: next_arg_def)

lemma and_then_Inr_simp: "and_then (Inr x) f = f x"
  by (simp add: and_then_def)

lemma and_then_Inl: "and_then (Inl e) f = Inl e"
  by (simp add: and_then_def)

lemma step_scan:
  "argument = ''--scan'' \<or> argument = ''--nuisance'' \<Longrightarrow>
   step env argument rest s = parse_scan env argument rest s"
  by (auto simp: step_def)

definition assigned :: "CommandLine \<Rightarrow> string set" where
  "assigned s = set (map (prior_parameter \<circ> fst) (log_posterior s))"

lemma double_less_irrefl: "\<not> double_less a a"
  by (cases a) simp_all

lemma double_less_asym: "double_less a b \<Longrightarrow> \<not> double_less b a"
  by (cases a; cases b) simp_all

lemma std_max_not_below: "\<not> double_less (std_max a b) a"
  by (simp add: std_max_def double_less_irrefl double_less_asym)

lemma std_min_not_above: "\<not> double_less a (std_min a b)"
  by (simp add: std_min_def double_less_irrefl double_less_asym)

lemma std_max_Num: "std_max (Num a) (Num b) = Num (max a b)"
  by (simp add: std_max_def max_def)

lemma std_min_Num: "std_min (Num a) (Num b) = Num (min a b)"
  by (simp add: std_min_def min_def)

lemma std_max_NegInf: "std_max (Num a) NegInf = Num a"
  by (simp add: std_max_def)

lemma std_min_PosInf: "std_min (Num a) PosInf = Num a"
  by (simp add: std_min_def)

definition example_quick :: MarkovChainSampler_Config where
  "example_quick =
     \<lparr>number_of_chains = 1, need_prerun = False, chunk_size = 100, chunks = 1,
      parallelize = True, use_strict_rvalue_definition = False, output_file = [],
      prerun_iterations_max = 0, prerun_iterations_min = 0, prerun_iterations_update = 0,
      store_prerun = False, need_main_run = True, proposal = ''MultivariateGaussian'',
      student_t_degrees_of_freedom = 1, seed = 0\<rparr>"

definition example_pmc_default :: PopulationMonteCarloSampler_Config where
  "example_pmc_default =
     \<lparr>patch_length = 0, skip_initial = 0, target_ncomponents = 0,
      config_pmc_output_file = [], config_pmc_parallelize = True,
      adjust_sample_size = 0, crop_highest_weights = 0, degrees_of_freedom = 0,
      ignore_groups = [], group_by_r_value = 0, r_value_no_nuisance = 0,
      final_samples = 0, ignore_eff_sample_size = 0, max_updates = 0,
      maximum_relative_std_deviation = 0, minimum_steps = 0, samples_per_component = 0,
      config_pmc_seed = 0\<rparr>"

lemma example_externals_simps:
  "destringify_double example_externals = table_double"
  "VerifiedRange example_externals lo hi v =
     (if v < lo then Inl (Exception ''VerifiedRangeUnderflow'')
      else if hi < v then Inl (Exception ''VerifiedRangeOverflow'')
      else Inr v)"
  "log_prior_throws example_externals p = None"
  "parameter_known example_externals name = True"
  "constraint_known example_externals name = True"
  "observable_known example_externals name = True"
  "enable_pmc example_externals = False"
  "double_plus example_externals = exact_op (+)"
  "double_minus example_externals = exact_op (-)"
  "double_times example_externals = exact_op (*)"
  by (simp_all add: example_externals_def)

lemma CommandLine_init_simps:
  "log_posterior (CommandLine_init quick pmc_default) = []"
  "scan_parameters (CommandLine_init quick pmc_default) = []"
  "nuisance_parameters (CommandLine_init quick pmc_default) = []"
  by (simp_all add: CommandLine_init_def)

text \<open>
  Claim C10. Let \<open>--scan\<close> or \<open>--nuisance\<close> be given as
  \<open>NAME MIN MAX N_SIGMAS --prior gaussian LOWER CENTRAL UPPER\<close> with \<open>N_SIGMAS > 0\<close>,
  where the words \<open>MAX\<close> and \<open>N_SIGMAS\<close> are numbers (so not the keyword \<open>--prior\<close>),
  \<open>VerifiedRange\<close> accepts \<open>N_SIGMAS\<close> and converts back to it, \<open>LogPrior::Gauss\<close> does not
  throw, the parameter is known and has no prior yet. Then the block returns normally, and
  what it registers (in \<open>nuisance_parameters\<close> or \<open>scan_parameters\<close>, and in the prior
  added to \<open>log_posterior\<close>) is the range
  \<open>[max(MIN, CENTRAL - N_SIGMAS * (CENTRAL - LOWER)), min(MAX, CENTRAL + N_SIGMAS * (UPPER - CENTRAL))]\<close>,
  with the arithmetic of the machine, whatever it rounds to and also when it overflows,
  and with \<open>std::max\<close> and \<open>std::min\<close>. The registered minimum is never below \<open>MIN\<close> and
  the registered maximum never above \<open>MAX\<close>.
\<close>

theorem gaussian_range_within_hard_bounds:
  fixes env :: externals and s :: CommandLine
    and name min_w max_w sigmas_w lower_w central_w upper_w :: string
  defines "hard_min \<equiv> destringify_double env min_w"
    and "hard_max \<equiv> destringify_double env max_w"
    and "n_sigmas \<equiv> destringify_double env sigmas_w"
    and "lower \<equiv> destringify_double env lower_w"
    and "central \<equiv> destringify_double env central_w"
    and "upper \<equiv> destringify_double env upper_w"
  defines "range_min \<equiv> std_max (Num hard_min)
        (double_minus env (Num central)
          (double_times env (Num n_sigmas) (double_minus env (Num central) (Num lower))))"
    and "range_max \<equiv> std_min (Num hard_max)
        (double_plus env (Num central)
          (double_times env (Num n_sigmas) (double_minus env (Num upper) (Num central))))"
  defines "d \<equiv> \<lparr>parameter = name, data_min = range_min, data_max = range_max,
        prior = ''gaussian''\<rparr>"
    and "p \<equiv> Gauss name range_min range_max lower central upper"
  assumes arg: "argument = ''--scan'' \<or> argument = ''--nuisance''"
    and format: "max_w \<noteq> ''--prior''" "sigmas_w \<noteq> ''--prior''"
    and positive: "0 < n_sigmas"
    and initial: "VerifiedRange env 0 10 0 = Inr n0"
    and range: "VerifiedRange env 0 10 n_sigmas = Inr n_sigmas"
    and constructed: "log_prior_throws env p = None"
    and known: "parameter_known env name"
    and fresh: "name \<notin> assigned s"
  shows "step env argument
        (name # min_w # max_w # sigmas_w # ''--prior'' # ''gaussian'' #
         lower_w # central_w # upper_w # rest) s =
      Inr (rest,
        (if argument = ''--nuisance''
         then s\<lparr>nuisance_parameters := nuisance_parameters s @ [d]\<rparr>
         else s\<lparr>scan_parameters := scan_parameters s @ [d]\<rparr>)
        \<lparr>log_posterior := log_posterior s @ [(p, argument = ''--nuisance'')]\<rparr>) \<and>
    \<not> double_less range_min (Num hard_min) \<and>
    \<not> double_less (Num hard_max) range_max"
proof (intro conjI)
  have bounds: "read_bounds env (destringify_double env min_w) max_w
      (sigmas_w # ''--prior'' # ''gaussian'' # lower_w # central_w # upper_w # rest) =
      Inr (hard_min, hard_max, n_sigmas, ''--prior'',
           ''gaussian'' # lower_w # central_w # upper_w # rest)"
    using format positive initial range
    by (simp add: read_bounds_def next_arg_Cons and_then_Inr_simp hard_min_def hard_max_def
        n_sigmas_def)
  have prior: "read_prior env name ''gaussian'' hard_min hard_max n_sigmas
      (lower_w # central_w # upper_w # rest) = Inr (p, range_min, range_max, rest)"
    using positive constructed
    by (simp add: read_prior_def next_arg_Cons and_then_Inr_simp Let_def p_def range_min_def
        range_max_def lower_def central_def upper_def)
  have add: "log_posterior_add (log_posterior s') p nuisance =
      (True, log_posterior s @ [(p, nuisance)])"
    if "log_posterior s' = log_posterior s" for s' nuisance
    using fresh that by (simp add: log_posterior_add_def assigned_def p_def)
  have "parse_scan env argument
        (name # min_w # max_w # sigmas_w # ''--prior'' # ''gaussian'' #
         lower_w # central_w # upper_w # rest) s =
      Inr (rest,
        (if argument = ''--nuisance''
         then s\<lparr>nuisance_parameters := nuisance_parameters s @ [d]\<rparr>
         else s\<lparr>scan_parameters := scan_parameters s @ [d]\<rparr>)
        \<lparr>log_posterior := log_posterior s @ [(p, argument = ''--nuisance'')]\<rparr>)"
    using known
    by (simp add: parse_scan_def next_arg_Cons and_then_Inr_simp bounds prior add Let_def
        d_def)
  with arg show "step env argument
        (name # min_w # max_w # sigmas_w # ''--prior'' # ''gaussian'' #
         lower_w # central_w # upper_w # rest) s =
      Inr (rest,
        (if argument = ''--nuisance''
         then s\<lparr>nuisance_parameters := nuisance_parameters s @ [d]\<rparr>
         else s\<lparr>scan_parameters := scan_parameters s @ [d]\<rparr>)
        \<lparr>log_posterior := log_posterior s @ [(p, argument = ''--nuisance'')]\<rparr>)"
    by (simp add: step_scan)
  show "\<not> double_less range_min (Num hard_min)"
    unfolding range_min_def by (rule std_max_not_below)
  show "\<not> double_less (Num hard_max) range_max"
    unfolding range_max_def by (rule std_min_not_above)
qed

text \<open>
  Two runs of the instance, with two sigmas around the central value 2 (\<open>LOWER = 1\<close>,
  \<open>UPPER = 3\<close>): the hard bounds \<open>[0.5, 3.5]\<close> cut the sigma range \<open>[0, 4]\<close> on both
  sides, and the hard bounds \<open>[-1, 5]\<close> leave it as it is.
\<close>

theorem gaussian_range_within_hard_bounds_witness:
  "step example_externals ''--nuisance''
     [''x'', ''0.5'', ''3.5'', ''2'', ''--prior'', ''gaussian'', ''1'', ''2'', ''3'']
     (CommandLine_init example_quick example_pmc_default) =
   Inr ([], (CommandLine_init example_quick example_pmc_default)
     \<lparr>nuisance_parameters :=
        [\<lparr>parameter = ''x'', data_min = Num 0.5, data_max = Num 3.5, prior = ''gaussian''\<rparr>],
      log_posterior := [(Gauss ''x'' (Num 0.5) (Num 3.5) 1 2 3, True)]\<rparr>) \<and>
   step example_externals ''--scan''
     [''x'', ''-1'', ''5'', ''2'', ''--prior'', ''gaussian'', ''1'', ''2'', ''3'']
     (CommandLine_init example_quick example_pmc_default) =
   Inr ([], (CommandLine_init example_quick example_pmc_default)
     \<lparr>scan_parameters :=
        [\<lparr>parameter = ''x'', data_min = Num 0, data_max = Num 4, prior = ''gaussian''\<rparr>],
      log_posterior := [(Gauss ''x'' (Num 0) (Num 4) 1 2 3, False)]\<rparr>)"
proof -
  let ?s = "CommandLine_init example_quick example_pmc_default"
  have numbers: "table_double ''0.5'' = 0.5" "table_double ''3.5'' = 3.5"
    "table_double ''-1'' = - 1" "table_double ''5'' = 5"
    "table_double ''2'' = 2" "table_double ''1'' = 1" "table_double ''3'' = 3"
    by (simp_all add: table_double_def)
  have positive: "0 < destringify_double example_externals ''2''"
    by (simp add: example_externals_simps numbers)
  have initial: "VerifiedRange example_externals 0 10 0 = Inr 0"
    by (simp add: example_externals_simps)
  have range: "VerifiedRange example_externals 0 10 (destringify_double example_externals ''2'') =
      Inr (destringify_double example_externals ''2'')"
    by (simp add: example_externals_simps numbers)
  have known: "parameter_known example_externals ''x''"
    by (simp add: example_externals_simps)
  have fresh: "''x'' \<notin> assigned ?s"
    by (simp add: assigned_def CommandLine_init_simps)
  note clip = gaussian_range_within_hard_bounds
    [where env = example_externals and s = ?s and name = "''x''" and sigmas_w = "''2''"
      and lower_w = "''1''" and central_w = "''2''" and upper_w = "''3''" and rest = "[]"
      and argument = "''--nuisance''" and min_w = "''0.5''" and max_w = "''3.5''",
      OF _ _ _ positive initial range example_externals_simps(3) known fresh,
      THEN conjunct1]
  note no_clip = gaussian_range_within_hard_bounds
    [where env = example_externals and s = ?s and name = "''x''" and sigmas_w = "''2''"
      and lower_w = "''1''" and central_w = "''2''" and upper_w = "''3''" and rest = "[]"
      and argument = "''--scan''" and min_w = "''-1''" and max_w = "''5''",
      OF _ _ _ positive initial range example_externals_simps(3) known fresh,
      THEN conjunct1]
  have clipped: "step example_externals ''--nuisance''
     [''x'', ''0.5'', ''3.5'', ''2'', ''--prior'', ''gaussian'', ''1'', ''2'', ''3''] ?s =
   Inr ([], ?s
     \<lparr>nuisance_parameters :=
        [\<lparr>parameter = ''x'', data_min = Num 0.5, data_max = Num 3.5, prior = ''gaussian''\<rparr>],
      log_posterior := [(Gauss ''x'' (Num 0.5) (Num 3.5) 1 2 3, True)]\<rparr>)"
    using clip
    by (simp add: example_externals_simps numbers CommandLine_init_simps std_max_Num
        std_min_Num)
  have unclipped: "step example_externals ''--scan''
     [''x'', ''-1'', ''5'', ''2'', ''--prior'', ''gaussian'', ''1'', ''2'', ''3''] ?s =
   Inr ([], ?s
     \<lparr>scan_parameters :=
        [\<lparr>parameter = ''x'', data_min = Num 0, data_max = Num 4, prior = ''gaussian''\<rparr>],
      log_posterior := [(Gauss ''x'' (Num 0) (Num 4) 1 2 3, False)]\<rparr>)"
    using no_clip
    by (simp add: example_externals_simps numbers CommandLine_init_simps std_max_Num
        std_min_Num)
  from clipped unclipped show ?thesis
    by (rule conjI)
qed

subsection \<open>Positions of the loop\<close>

inductive loop_at ::
  "externals \<Rightarrow> string list \<Rightarrow> CommandLine \<Rightarrow> string list \<Rightarrow> CommandLine \<Rightarrow> bool"
  for env :: externals and args :: "string list" and s :: CommandLine where
  start: "loop_at env args s args s"
| advance: "loop_at env args s (argument # rest) s1 \<Longrightarrow>
     step env argument rest s1 = Inr (rest', s2) \<Longrightarrow> loop_at env args s rest' s2"

lemma loop_at_parse_loop:
  "loop_at env args s args' s' \<Longrightarrow> parse_loop env args s = parse_loop env args' s'"
  by (induction rule: loop_at.induct) simp_all

fun setup_failed :: "outcome \<Rightarrow> bool" where
  "setup_failed (Usage what) = True"
| "setup_failed (CaughtException what) = True"
| "setup_failed Undefined = True"
| "setup_failed Aborted = True"
| "setup_failed (Optimization inst) = False"
| "setup_failed (GoodnessOfFit inst) = False"
| "setup_failed (PopulationMonteCarlo action inst) = False"
| "setup_failed (MarkovChain lp config) = False"

lemma main_parse_error:
  "parse_loop env args (parse_begin prog args (CommandLine_init quick pmc_default)) = Inl e \<Longrightarrow>
   main env stringify quick pmc_default (prog # args) =
     (case e of DoUsage what \<Rightarrow> Usage what | Exception what \<Rightarrow> CaughtException what
      | NullArgument \<Rightarrow> Undefined | Abort \<Rightarrow> Aborted)"
  by (simp add: main_def parse_def split: error.splits)

lemma step_nonpositive_dof:
  "destringify_double env dof \<le> 0 \<Longrightarrow>
   step env ''--proposal'' (''MultivariateStudentT'' # dof # rest) s =
     Inl (DoUsage ''No (or non-positive) degree of freedom for MultivariateStudentT specified'')"
  by (simp add: step_def next_arg_Cons and_then_Inr_simp)

lemma read_prior_parameter:
  "read_prior env name prior_type mn mx n rest = Inr (p, lo, hi, rest') \<Longrightarrow>
   prior_parameter p = name"
  by (auto simp: read_prior_def and_then_Inr next_arg_Inr Let_def
      split: if_splits option.splits)

lemma read_prior_prior_type:
  "read_prior env name prior_type mn mx n rest = Inr (p, lo, hi, rest') \<Longrightarrow>
   prior_type = ''gaussian'' \<or> prior_type = ''flat''"
  by (auto simp: read_prior_def split: if_splits)

lemma parse_scan_duplicate:
  assumes "name \<in> assigned s"
  shows "\<exists>e. parse_scan env argument (name # rest) s = Inl e"
proof (cases "parse_scan env argument (name # rest) s")
  case (Inl e)
  then show ?thesis by blast
next
  case (Inr y)
  with assms have False
    by (auto simp: parse_scan_def next_arg_Cons and_then_Inr Let_def log_posterior_add_def
        assigned_def split: if_splits prod.splits dest!: read_prior_parameter)
  then show ?thesis ..
qed

lemma parse_scan_duplicate_usage:
  assumes "name \<in> assigned s"
    and "parse_scan env argument (name # rest) (s\<lparr>log_posterior := []\<rparr>) = Inr y"
  shows "\<exists>prior_type. (prior_type = ''gaussian'' \<or> prior_type = ''flat'') \<and>
     parse_scan env argument (name # rest) s =
       Inl (DoUsage (assignment_error prior_type name))"
  using assms
  by (auto simp: parse_scan_def next_arg_Cons and_then_Inr Let_def log_posterior_add_def
        assigned_def and_then_Inr_simp
        split: if_splits prod.splits dest: read_prior_parameter read_prior_prior_type)


text \<open>
  Claim C2. Whenever the loop arrives at a \<open>--proposal MultivariateStudentT DOF\<close> with a
  non-positive \<open>DOF\<close>, \<open>main\<close> ends in the handler for \<open>DoUsage\<close> with the message about
  the degree of freedom. Whenever it arrives at a \<open>--scan\<close> or \<open>--nuisance\<close> for a name
  that already has a prior, \<open>main\<close> never reaches a branch that hands over to the
  library (\<open>setup_failed\<close>: it ends in a handler, or the block is cut short by the end of
  \<open>argv\<close>); and when the block would have been accepted had no prior been assigned
  before, the handler is the one for \<open>DoUsage\<close> and the message names the parameter and
  asks whether it appears twice.
\<close>

theorem configuration_errors_fail_fast:
  assumes at: "loop_at env args (parse_begin prog args (CommandLine_init quick pmc_default))
      (argument # rest) s"
  shows "(argument = ''--proposal'' \<and> rest = ''MultivariateStudentT'' # dof # rest' \<and>
          destringify_double env dof \<le> 0 \<longrightarrow>
            main env stringify quick pmc_default (prog # args) =
              Usage ''No (or non-positive) degree of freedom for MultivariateStudentT specified'') \<and>
         ((argument = ''--scan'' \<or> argument = ''--nuisance'') \<and> rest = name # rest' \<and>
          name \<in> assigned s \<longrightarrow>
            setup_failed (main env stringify quick pmc_default (prog # args)) \<and>
            (parse_scan env argument rest (s\<lparr>log_posterior := []\<rparr>) = Inr y \<longrightarrow>
               (\<exists>prior_type. (prior_type = ''gaussian'' \<or> prior_type = ''flat'') \<and>
                  main env stringify quick pmc_default (prog # args) =
                    Usage (assignment_error prior_type name))))"
proof -
  let ?s0 = "parse_begin prog args (CommandLine_init quick pmc_default)"
  let ?main = "main env stringify quick pmc_default (prog # args)"
  have loop: "parse_loop env args ?s0 = parse_loop env (argument # rest) s"
    using at by (rule loop_at_parse_loop)
  have thrown: "?main = (case e of DoUsage what \<Rightarrow> Usage what
        | Exception what \<Rightarrow> CaughtException what
        | NullArgument \<Rightarrow> Undefined | Abort \<Rightarrow> Aborted)"
    if "step env argument rest s = Inl e" for e
    using that loop by (intro main_parse_error) simp
  have dof_case: "?main =
      Usage ''No (or non-positive) degree of freedom for MultivariateStudentT specified''"
    if "argument = ''--proposal''" "rest = ''MultivariateStudentT'' # dof # rest'"
      "destringify_double env dof \<le> 0"
    using thrown [OF step_nonpositive_dof [OF that(3), of rest' s, folded that(1,2)]]
    by simp
  have failed: "setup_failed ?main"
    if "argument = ''--scan'' \<or> argument = ''--nuisance''" "rest = name # rest'"
      "name \<in> assigned s"
  proof -
    from parse_scan_duplicate [OF that(3)] obtain e
      where "parse_scan env argument (name # rest') s = Inl e" by blast
    with that have "step env argument rest s = Inl e"
      by (simp add: step_scan)
    from thrown [OF this] show ?thesis
      by (cases e) simp_all
  qed
  have usage: "\<exists>prior_type. (prior_type = ''gaussian'' \<or> prior_type = ''flat'') \<and>
      ?main = Usage (assignment_error prior_type name)"
    if "argument = ''--scan'' \<or> argument = ''--nuisance''" "rest = name # rest'"
      "name \<in> assigned s"
      "parse_scan env argument rest (s\<lparr>log_posterior := []\<rparr>) = Inr y"
  proof -
    from parse_scan_duplicate_usage [OF that(3) that(4) [unfolded that(2)]]
    obtain prior_type where t: "prior_type = ''gaussian'' \<or> prior_type = ''flat''"
      and "parse_scan env argument (name # rest') s =
        Inl (DoUsage (assignment_error prior_type name))"
      by blast
    with that have "step env argument rest s =
        Inl (DoUsage (assignment_error prior_type name))"
      by (simp add: step_scan)
    from thrown [OF this] t show ?thesis
      by auto
  qed
  show ?thesis
  proof (intro conjI impI)
    assume "argument = ''--proposal'' \<and> rest = ''MultivariateStudentT'' # dof # rest' \<and>
      destringify_double env dof \<le> 0"
    then show "?main =
        Usage ''No (or non-positive) degree of freedom for MultivariateStudentT specified''"
      by (elim conjE) (rule dof_case)
  next
    assume "(argument = ''--scan'' \<or> argument = ''--nuisance'') \<and> rest = name # rest' \<and>
      name \<in> assigned s"
    then show "setup_failed ?main"
      by (elim conjE) (rule failed)
  next
    assume "(argument = ''--scan'' \<or> argument = ''--nuisance'') \<and> rest = name # rest' \<and>
      name \<in> assigned s"
      and "parse_scan env argument rest (s\<lparr>log_posterior := []\<rparr>) = Inr y"
    then show "\<exists>prior_type. (prior_type = ''gaussian'' \<or> prior_type = ''flat'') \<and>
        ?main = Usage (assignment_error prior_type name)"
      by (elim conjE) (rule usage)
  qed
qed

lemma example_flat_clause:
  "parse_scan example_externals ''--scan''
     (''x'' # ''0'' # ''1'' # ''--prior'' # ''flat'' # rest) s =
   (if ''x'' \<in> assigned s then Inl (DoUsage (assignment_error ''flat'' ''x''))
    else Inr (rest, s\<lparr>scan_parameters := scan_parameters s @
        [\<lparr>parameter = ''x'', data_min = Num 0, data_max = Num 1, prior = ''flat''\<rparr>],
      log_posterior := log_posterior s @ [(Flat ''x'' (Num 0) (Num 1), False)]\<rparr>))"
  by (simp add: parse_scan_def read_bounds_def read_prior_def next_arg_Cons
      and_then_Inr_simp example_externals_simps table_double_def log_posterior_add_def
      assigned_def Let_def)

theorem configuration_errors_fail_fast_witness:
  "main example_externals (\<lambda>n. []) example_quick example_pmc_default
     [''eos-scan-mc'', ''--proposal'', ''MultivariateStudentT'', ''-1''] =
     Usage ''No (or non-positive) degree of freedom for MultivariateStudentT specified'' \<and>
   (\<exists>prior_type.
      main example_externals (\<lambda>n. []) example_quick example_pmc_default
        [''eos-scan-mc'', ''--scan'', ''x'', ''0'', ''1'', ''--prior'', ''flat'',
         ''--scan'', ''x'', ''0'', ''1'', ''--prior'', ''flat''] =
        Usage (assignment_error prior_type ''x''))"
proof -
  let ?clause = "[''x'', ''0'', ''1'', ''--prior'', ''flat'']"
  let ?args = "''--scan'' # ?clause @ ''--scan'' # ?clause"
  let ?dof = "[''--proposal'', ''MultivariateStudentT'', ''-1'']"
  let ?init = "CommandLine_init example_quick example_pmc_default"
  have dof: "destringify_double example_externals ''-1'' \<le> 0"
    by (simp add: example_externals_simps table_double_def)
  have first: "main example_externals (\<lambda>n. []) example_quick example_pmc_default
     (''eos-scan-mc'' # ?dof) =
     Usage ''No (or non-positive) degree of freedom for MultivariateStudentT specified''"
    using configuration_errors_fail_fast
      [OF loop_at.start, where env = example_externals and argument = "''--proposal''"
        and rest = "[''MultivariateStudentT'', ''-1'']" and dof = "''-1''" and rest' = "[]"]
      dof
    by simp
  let ?s0 = "parse_begin ''eos-scan-mc'' ?args ?init"
  let ?s1 = "?s0\<lparr>scan_parameters := scan_parameters ?s0 @
        [\<lparr>parameter = ''x'', data_min = Num 0, data_max = Num 1, prior = ''flat''\<rparr>],
      log_posterior := log_posterior ?s0 @ [(Flat ''x'' (Num 0) (Num 1), False)]\<rparr>"
  have fresh: "''x'' \<notin> assigned ?s0"
    by (simp add: assigned_def parse_begin_def CommandLine_init_simps)
  have "step example_externals ''--scan'' (?clause @ ''--scan'' # ?clause) ?s0 =
      Inr (''--scan'' # ?clause, ?s1)"
    using fresh by (simp add: step_scan example_flat_clause)
  from loop_at.advance [OF loop_at.start this]
  have at: "loop_at example_externals ?args ?s0 (''--scan'' # ?clause) ?s1" .
  have dup: "''x'' \<in> assigned ?s1"
    by (simp add: assigned_def)
  have accepted: "parse_scan example_externals ''--scan'' ?clause (?s1\<lparr>log_posterior := []\<rparr>) =
      Inr ([], (?s1\<lparr>log_posterior := []\<rparr>)\<lparr>scan_parameters :=
          scan_parameters (?s1\<lparr>log_posterior := []\<rparr>) @
            [\<lparr>parameter = ''x'', data_min = Num 0, data_max = Num 1, prior = ''flat''\<rparr>],
        log_posterior := log_posterior (?s1\<lparr>log_posterior := []\<rparr>) @
            [(Flat ''x'' (Num 0) (Num 1), False)]\<rparr>)"
    by (subst example_flat_clause) (simp add: assigned_def)
  have duplicate: "(''--scan'' = ''--scan'' \<or> ''--scan'' = ''--nuisance'') \<and>
      ?clause = ''x'' # [''0'', ''1'', ''--prior'', ''flat''] \<and> ''x'' \<in> assigned ?s1"
    using dup by simp
  note configuration_errors_fail_fast
    [OF at, where name = "''x''" and rest' = "[''0'', ''1'', ''--prior'', ''flat'']"
      and stringify = "\<lambda>n. []",
      THEN conjunct2, THEN mp, OF duplicate, THEN conjunct2, THEN mp, OF accepted]
  then have "\<exists>prior_type.
      main example_externals (\<lambda>n. []) example_quick example_pmc_default
        (''eos-scan-mc'' # ?args) = Usage (assignment_error prior_type ''x'')"
    by (elim exE conjE) (rule exI)
  with first show ?thesis
    by simp
qed

section \<open>The sampling engine, from the spec\<close>

text \<open>
  The sources hold the command line tool that builds a \<open>MarkovChainSampler\<close> and calls
  \<open>run\<close>, and a script that calls the R-value of an external package; the Markov chain
  and its diagnostics themselves are defined outside the sources. The definitions of this
  section follow the sentences of the spec.
\<close>

subsection \<open>Gelman-Rubin R-value\<close>

definition mean :: "real list \<Rightarrow> real" where
  "mean xs = sum_list xs / real (length xs)"

definition variance :: "real list \<Rightarrow> real" where
  "variance xs = (\<Sum>x\<leftarrow>xs. (x - mean xs)\<^sup>2) / (real (length xs) - 1)"

text \<open>
  Modelled from the spec: \<open>compute_r_value\<close> is missing from the sources. Section 4.2:
  the statistic is \<open>R = sqrt(((n-1)/n) + (B/W)/n)\<close> with \<open>n\<close> the block length, \<open>B\<close> the
  between-chain variance of the chain means and \<open>W\<close> the mean within-chain variance; at
  least two chains are required. \<open>xss\<close> holds, for one parameter, the values of each
  chain over the block. The variance is the sample variance (divisor \<open>k - 1\<close>); the
  result is \<open>None\<close> where the formula divides by zero or has fewer than two chains.
\<close>

definition compute_r_value :: "nat \<Rightarrow> real list list \<Rightarrow> real option" where
  "compute_r_value n xss =
     (let B = variance (map mean xss);
          W = mean (map variance xss)
      in if length xss < 2 \<or> n = 0 \<or> W = 0 then None
         else Some (sqrt ((real n - 1) / real n + (B / W) / real n)))"

lemma sum_list_replicate_real: "sum_list (replicate K (m::real)) = real K * m"
  by (induction K) (simp_all add: algebra_simps)

lemma mean_replicate: "0 < K \<Longrightarrow> mean (replicate K m) = m"
  by (simp add: mean_def sum_list_replicate_real)

lemma variance_replicate: "0 < K \<Longrightarrow> variance (replicate K m) = 0"
proof -
  assume K: "0 < K"
  have "(\<Sum>x\<leftarrow>replicate K m. (x - m)\<^sup>2) = 0"
    by (induction K) simp_all
  with K show ?thesis
    by (simp add: variance_def mean_replicate)
qed

text \<open>
  Claim C4, as stated: for chains with identical values per step the R-value is 1.0 within
  floating tolerance. It fails for two chains that both hold the values 0, 1: the
  between-chain variance is 0, the within-chain variance is 1/2 in both, and the formula
  gives \<open>sqrt (1/2)\<close>, which is below 3/4.
\<close>

theorem r_value_identical_chains_counterexample:
  "compute_r_value 2 [[0, 1], [0, 1]] = Some (sqrt (1 / 2)) \<and> sqrt (1 / 2) < (3 / 4 :: real)"
proof
  have m: "mean [0, 1] = 1 / 2"
    by (simp add: mean_def)
  have v: "variance [0, 1] = 1 / 2"
    by (simp add: variance_def m power2_eq_square)
  have B: "variance [1 / 2, 1 / 2] = 0"
    using variance_replicate [of 2 "1 / 2"] by (simp add: numeral_2_eq_2)
  have W: "mean [1 / 2, 1 / 2] = 1 / 2"
    by (simp add: mean_def)
  show "compute_r_value 2 [[0, 1], [0, 1]] = Some (sqrt (1 / 2))"
    by (simp add: compute_r_value_def m v B W)
  show "sqrt (1 / 2) < (3 / 4 :: real)"
    by (rule real_less_lsqrt) (simp_all add: power2_eq_square)
qed

text \<open>
  Claim C4, amended: for \<open>K \<ge> 2\<close> chains with identical values per step, a block of
  length \<open>n\<close> and a non-zero within-chain variance, the formula gives
  \<open>R = sqrt ((n - 1) / n)\<close>, which is strictly below 1.
\<close>

theorem r_value_identical_chains:
  assumes "2 \<le> K" and "xss = replicate K c" and "length c = n" and "variance c \<noteq> 0"
  shows "compute_r_value n xss = Some (sqrt ((real n - 1) / real n)) \<and>
         sqrt ((real n - 1) / real n) < 1"
proof
  from assms(1) have K: "0 < K" by simp
  have n: "n \<noteq> 0"
  proof
    assume "n = 0"
    with assms(3) have "c = []" by simp
    with assms(4) show False by (simp add: variance_def)
  qed
  have B: "variance (map mean xss) = 0"
    using K by (simp add: assms(2) variance_replicate)
  have W: "mean (map variance xss) = variance c"
    using K by (simp add: assms(2) mean_replicate)
  show "compute_r_value n xss = Some (sqrt ((real n - 1) / real n))"
    unfolding compute_r_value_def B W
    using assms(1,4) n by (simp add: assms(2))
  from n have "(real n - 1) / real n < 1"
    by simp
  then show "sqrt ((real n - 1) / real n) < 1"
    by (simp add: real_sqrt_lt_1_iff)
qed

theorem r_value_identical_chains_witness:
  "(2::nat) \<le> 3 \<and> length [0, 1, 0, 1 :: real] = 4 \<and> variance [0, 1, 0, 1] \<noteq> 0 \<and>
   compute_r_value 4 (replicate 3 [0, 1, 0, 1]) = Some (sqrt (3 / 4)) \<and>
   sqrt (3 / 4) < (1::real)"
proof -
  have m: "mean [0, 1, 0, 1] = 1 / 2"
    by (simp add: mean_def)
  have v: "variance [0, 1, 0, 1] \<noteq> 0"
    by (simp add: variance_def m power2_eq_square)
  from r_value_identical_chains [OF _ refl _ v, of 3 4] v show ?thesis
    by simp
qed

subsection \<open>The Markov chain\<close>

type_synonym point = "real list"

datatype log_value = MinusInfinity | Finite real

datatype domain_error = DomainError string

record chain_state =
  current :: point
  current_log_posterior :: log_value
  accepted :: nat
  rejected :: nat
  iterations :: nat
  history :: "point list"

text \<open>
  Modelled from the spec: the class of the Markov chain is missing from the sources.
  Section 3: the chain state is the current point, the current log-posterior value, the
  acceptance counter, the rejection counter and the iteration counter; the history is the
  buffer of section 2.

  A proposal density \<open>q\<close> gives the density \<open>q x y\<close> of proposing \<open>y\<close> from \<open>x\<close>. It is
  symmetric when \<open>q x y = q y x\<close>. The Hastings correction, which the spec names without
  defining it, is the logarithm of the usual ratio \<open>q y x / q x y\<close>.
\<close>

definition symmetric :: "(point \<Rightarrow> point \<Rightarrow> real) \<Rightarrow> bool" where
  "symmetric q = (\<forall>x y. q x y = q y x)"

definition hastings_correction :: "(point \<Rightarrow> point \<Rightarrow> real) \<Rightarrow> point \<Rightarrow> point \<Rightarrow> real" where
  "hastings_correction q x y = ln (q y x) - ln (q x y)"

text \<open>
  Modelled from the spec: section 4.1, "accept with probability
  \<open>min(1, exp(log_posterior_candidate - log_posterior_current + hastings_correction))\<close>".
  A log-posterior of minus infinity at the candidate makes the exponential 0 (section 7:
  "the affected proposal is always rejected"); minus infinity at the current point only
  makes it infinite, and the minimum 1.
\<close>

fun acceptance_probability :: "log_value \<Rightarrow> log_value \<Rightarrow> real \<Rightarrow> real" where
  "acceptance_probability lp_current MinusInfinity hc = 0"
| "acceptance_probability MinusInfinity (Finite lp_candidate) hc = 1"
| "acceptance_probability (Finite lp_current) (Finite lp_candidate) hc =
     min 1 (exp (lp_candidate - lp_current + hc))"

definition accept :: "chain_state \<Rightarrow> point \<Rightarrow> log_value \<Rightarrow> chain_state" where
  "accept st candidate lp_candidate =
     st\<lparr>current := candidate, current_log_posterior := lp_candidate,
        accepted := Suc (accepted st), iterations := Suc (iterations st),
        history := history st @ [candidate]\<rparr>"

definition reject :: "chain_state \<Rightarrow> chain_state" where
  "reject st =
     st\<lparr>rejected := Suc (rejected st), iterations := Suc (iterations st),
        history := history st @ [current st]\<rparr>"

text \<open>
  Modelled from the spec: section 4.1, \<open>accept_or_reject(candidate, log_posterior_candidate)\<close>:
  "on accept, current state advances to candidate; on reject, current state is re-recorded
  (duplicated) into history"; "increments iteration and acceptance/rejection counters".
  The random source is outside the model: \<open>u\<close> is the uniform draw from \<open>[0, 1)\<close> that
  decides, and the proposal is accepted when \<open>u\<close> is below the acceptance probability.
\<close>

definition accept_or_reject ::
  "chain_state \<Rightarrow> point \<Rightarrow> log_value \<Rightarrow> real \<Rightarrow> real \<Rightarrow> chain_state" where
  "accept_or_reject st candidate lp_candidate hc u =
     (if u < acceptance_probability (current_log_posterior st) lp_candidate hc
      then accept st candidate lp_candidate
      else reject st)"

text \<open>
  Modelled from the spec: one iteration. The posterior is evaluated at the candidate;
  section 4.1, "if \<open>log_posterior\<close> evaluation raises a domain error, the proposal is
  treated as rejected (log-posterior = -infinity), not a fatal error". A run is a
  sequence of iterations, one for each pair of a candidate drawn by \<open>propose\<close> and a
  uniform draw.
\<close>

definition evaluate :: "(point \<Rightarrow> domain_error + real) \<Rightarrow> point \<Rightarrow> log_value" where
  "evaluate posterior x =
     (case posterior x of Inl e \<Rightarrow> MinusInfinity | Inr v \<Rightarrow> Finite v)"

definition iterate ::
  "(point \<Rightarrow> point \<Rightarrow> real) \<Rightarrow> (point \<Rightarrow> domain_error + real) \<Rightarrow>
   chain_state \<Rightarrow> point \<Rightarrow> real \<Rightarrow> chain_state" where
  "iterate q posterior st candidate u =
     accept_or_reject st candidate (evaluate posterior candidate)
       (hastings_correction q (current st) candidate) u"

fun run ::
  "(point \<Rightarrow> point \<Rightarrow> real) \<Rightarrow> (point \<Rightarrow> domain_error + real) \<Rightarrow>
   chain_state \<Rightarrow> (point \<times> real) list \<Rightarrow> chain_state" where
  "run q posterior st [] = st"
| "run q posterior st ((candidate, u) # draws) =
     run q posterior (iterate q posterior st candidate u) draws"

lemma hastings_correction_symmetric: "symmetric q \<Longrightarrow> hastings_correction q x y = 0"
  by (simp add: symmetric_def hastings_correction_def)

text \<open>
  Claim C5. For a symmetric proposal density the Hastings correction is zero, and the
  probability that \<open>accept_or_reject\<close> applies in an iteration is exactly
  \<open>min 1 (exp (log_posterior_candidate - log_posterior_current))\<close>: the candidate is
  accepted when the uniform draw is below it and rejected otherwise.
\<close>

theorem symmetric_proposal_acceptance:
  assumes "symmetric q"
    and "current_log_posterior st = Finite lp_current"
    and "posterior candidate = Inr lp_candidate"
  shows "hastings_correction q (current st) candidate = 0 \<and>
         acceptance_probability (current_log_posterior st) (evaluate posterior candidate)
           (hastings_correction q (current st) candidate) =
           min 1 (exp (lp_candidate - lp_current)) \<and>
         iterate q posterior st candidate u =
           (if u < min 1 (exp (lp_candidate - lp_current))
            then accept st candidate (Finite lp_candidate)
            else reject st)"
  using assms
  by (simp add: hastings_correction_symmetric iterate_def accept_or_reject_def evaluate_def)

definition example_chain :: chain_state where
  "example_chain =
     \<lparr>current = [0], current_log_posterior = Finite 0, accepted = 0, rejected = 0,
      iterations = 0, history = [[0]]\<rparr>"

theorem symmetric_proposal_acceptance_witness:
  "symmetric (\<lambda>x y. 1) \<and>
   current_log_posterior example_chain = Finite 0 \<and>
   acceptance_probability (current_log_posterior example_chain)
     (evaluate (\<lambda>x. Inr (- 1)) [1]) (hastings_correction (\<lambda>x y. 1) (current example_chain) [1]) =
     min 1 (exp (- 1)) \<and>
   iterate (\<lambda>x y. 1) (\<lambda>x. Inr (- 1)) example_chain [1] 1 = reject example_chain"
proof -
  have s: "symmetric (\<lambda>x y. 1)"
    by (simp add: symmetric_def)
  have c: "current_log_posterior example_chain = Finite 0"
    by (simp add: example_chain_def)
  have e: "(\<lambda>x. Inr (- 1)) [1 :: real] = (Inr (- 1) :: domain_error + real)"
    by simp
  from symmetric_proposal_acceptance [OF s c e, where u = 1] s c
  show ?thesis
    by (simp add: evaluate_def hastings_correction_symmetric)
qed

lemma iterations_iterate: "iterations (iterate q posterior st candidate u) = Suc (iterations st)"
  by (simp add: iterate_def accept_or_reject_def accept_def reject_def)

lemma iterations_run:
  "iterations (run q posterior st draws) = iterations st + length draws"
  by (induction draws arbitrary: st) (auto simp: iterations_iterate)

text \<open>
  Claim C6. When the evaluation of the log-posterior at the proposed point raises a domain
  error, the log-posterior is taken as minus infinity, and for every uniform draw (a
  number that is not negative) the proposal is rejected: the current point and its
  log-posterior are unchanged, the rejection and iteration counters grow by one and the
  current point is recorded again. The run goes on with the remaining draws, and every
  draw of a run is one iteration, with or without domain errors.
\<close>

theorem domain_error_is_rejection:
  assumes "posterior candidate = Inl e" and "0 \<le> u"
  shows "evaluate posterior candidate = MinusInfinity \<and>
         iterate q posterior st candidate u =
           st\<lparr>rejected := Suc (rejected st), iterations := Suc (iterations st),
              history := history st @ [current st]\<rparr> \<and>
         current (iterate q posterior st candidate u) = current st \<and>
         current_log_posterior (iterate q posterior st candidate u) =
           current_log_posterior st \<and>
         accepted (iterate q posterior st candidate u) = accepted st \<and>
         run q posterior st ((candidate, u) # draws) =
           run q posterior (reject st) draws \<and>
         iterations (run q posterior st ((candidate, u) # draws)) =
           iterations st + Suc (length draws)"
  using assms
  by (simp add: iterate_def accept_or_reject_def evaluate_def reject_def iterations_run)

theorem domain_error_is_rejection_witness:
  "(\<lambda>x. Inl (DomainError ''undefined'')) [1 :: real] = (Inl (DomainError ''undefined'') :: domain_error + real) \<and>
   (0::real) \<le> 1 / 2 \<and>
   iterate (\<lambda>x y. 1) (\<lambda>x. Inl (DomainError ''undefined'')) example_chain [1] (1 / 2) =
     \<lparr>current = [0], current_log_posterior = Finite 0, accepted = 0, rejected = 1,
      iterations = 1, history = [[0], [0]]\<rparr>"
proof -
  have e: "(\<lambda>x. Inl (DomainError ''undefined'')) [1 :: real] =
      (Inl (DomainError ''undefined'') :: domain_error + real)"
    by simp
  have u: "(0::real) \<le> 1 / 2"
    by simp
  from domain_error_is_rejection
    [OF e u, where q = "\<lambda>x y. 1" and st = example_chain and draws = "[]"]
  show ?thesis
    by (simp add: example_chain_def)
qed

end
